theory Spec2Isabelle
  imports Main "HOL-Library.Word"
begin

unbundle bit_operations_syntax

section \<open>Common data: opaque handles and failures\<close>

text \<open>
  Every object of the abstraction is named by a 64-bit handle (\<open>api::resource\<close>,
  \<open>api::resource_view\<close>, \<open>api::render_pass\<close>, ...: a struct holding one \<open>uint64_t\<close>).
  Native pointers and native object names are 64-bit values as well; zero is
  \<open>nullptr\<close> / \<open>VK_NULL_HANDLE\<close>.

  The ways a call can leave the normal path are values of \<open>error\<close>:
  \<open>Out_of_range\<close> is the \<open>std::out_of_range\<close> thrown by \<open>std::unordered_map::at\<close>,
  \<open>Assertion_failed\<close> is an \<open>assert\<close> that fails in a build without \<open>NDEBUG\<close>,
  \<open>Out_of_bounds\<close> is a \<open>std::vector\<close> or array access outside the container and
  \<open>Invalid_pointer\<close> is a handle cast to a pointer that names no live object and
  \<open>Wrong_union_member\<close> is a read of a union member other than the one stored (the
  last three are undefined behaviour in the source).
\<close>

type_synonym handle = "64 word"

datatype error = Out_of_range | Assertion_failed | Out_of_bounds | Invalid_pointer
  | Wrong_union_member

section \<open>Direct3D 9: render-pass emulation in \<open>Direct3DDevice9\<close>\<close>

text \<open>
  \<open>source/d3d9/d3d9_device.cpp\<close>, \<open>SetRenderTarget\<close> and \<open>SetDepthStencilSurface\<close>
  (the \<open>RESHADE_ADDON\<close> build). The device keeps the bound attachments in
  \<open>_current_pass\<close> and reports \<open>finish_render_pass\<close> / \<open>begin_render_pass\<close> to the
  add-on event sink. The events are collected in call order in \<open>d3d9_events\<close>.

  The declaration of \<open>render_pass_impl\<close> is not among the sources; its \<open>rtv\<close> array is
  modelled as a function from the slot index, its \<open>dsv\<close> as one surface pointer.
  \<open>GetDesc\<close> of a surface is the parameter \<open>get_desc\<close> (the \<open>UINT\<close> width and
  height), the \<open>HRESULT\<close> of the forwarded native call is the parameter \<open>succeeded\<close>.
  The viewport reported with \<open>bind_viewports\<close> holds the width and height converted
  with \<open>static_cast<float>\<close>: \<open>float32\<close> stands for the type \<open>float\<close> and the
  conversion is the parameter \<open>to_float\<close>. The other four entries of the viewport are
  constants and are left out.
\<close>

typedecl float32

datatype addon_event =
    Finish_render_pass
  | Begin_render_pass handle
  | Bind_viewports float32 float32

record d3d9_device =
  current_pass :: handle
  rtv :: "nat \<Rightarrow> handle"
  dsv :: handle
  d3d9_events :: "addon_event list"

definition invoke_addon_event :: "addon_event \<Rightarrow> d3d9_device \<Rightarrow> d3d9_device" where
  "invoke_addon_event e d = d\<lparr>d3d9_events := d3d9_events d @ [e]\<rparr>"

definition SetRenderTarget ::
  "(32 word \<Rightarrow> float32) \<Rightarrow> (handle \<Rightarrow> 32 word \<times> 32 word) \<Rightarrow> bool \<Rightarrow> nat \<Rightarrow> handle
     \<Rightarrow> d3d9_device \<Rightarrow> d3d9_device" where
  "SetRenderTarget to_float get_desc succeeded RenderTargetIndex pRenderTarget d =
     (if succeeded then
        let d1 = (if rtv d RenderTargetIndex \<noteq> 0 then
                    (if RenderTargetIndex = 0 then invoke_addon_event Finish_render_pass d else d)
                  else d);
            d2 = d1\<lparr>rtv := (rtv d1)(RenderTargetIndex := pRenderTarget)\<rparr>
        in (if rtv d2 RenderTargetIndex \<noteq> 0 then
              let d3 = (if RenderTargetIndex = 0
                        then invoke_addon_event (Begin_render_pass (current_pass d2)) d2
                        else d2)
              in invoke_addon_event
                   (Bind_viewports (to_float (fst (get_desc pRenderTarget)))
                      (to_float (snd (get_desc pRenderTarget)))) d3
            else d2)
      else d)"

definition SetDepthStencilSurface :: "bool \<Rightarrow> handle \<Rightarrow> d3d9_device \<Rightarrow> d3d9_device" where
  "SetDepthStencilSurface succeeded pNewZStencil d =
     (if succeeded \<and> pNewZStencil \<noteq> dsv d then
        let d1 = invoke_addon_event Finish_render_pass d;
            d2 = d1\<lparr>dsv := pNewZStencil\<rparr>
        in invoke_addon_event (Begin_render_pass (current_pass d2)) d2
      else d)"

text \<open>A device whose pass object lives at address \<open>0x5000\<close>, with nothing bound yet.\<close>

definition d3d9_fresh :: d3d9_device where
  "d3d9_fresh = \<lparr>current_pass = 0x5000, rtv = (\<lambda>_. 0), dsv = 0, d3d9_events = []\<rparr>"

definition desc_640x480 :: "handle \<Rightarrow> 32 word \<times> 32 word" where
  "desc_640x480 s = (640, 480)"

section \<open>Vulkan: device state and handle registry\<close>

text \<open>
  \<open>source/vulkan/reshade_api_device.hpp\<close>. The registry is the four
  \<open>std::unordered_map\<close>s of \<open>device_impl\<close>; \<open>resource_data\<close> and
  \<open>resource_view_data\<close> hold a union of the image and the buffer create info, which is
  a datatype with one constructor per member here. Reading the image member of a record
  that holds the buffer member is the failure \<open>Inl Wrong_union_member\<close> (the source
  reads whatever bytes are there).

  Native Vulkan and VMA calls are not part of the repository: the outcome of each call
  is a parameter of the operation that makes it, and the call is appended to
  \<open>vk_trace\<close>, which also records the registry insertions and removals, so that the
  order of effects can be read off. Objects created with \<open>new\<close> live in
  \<open>pass_impls\<close>; the address \<open>new\<close> returns is a parameter.
\<close>

datatype native_kind = Buffer | Image | Render_pass | Framebuffer | Query_pool | Staging_buffer

datatype vk_event =
    Ev_native_create native_kind handle
  | Ev_native_create_failed native_kind
  | Ev_native_destroy native_kind handle
  | Ev_register handle
  | Ev_unregister handle
  | Ev_barrier handle handle "32 word" "32 word"
  | Ev_vma_destroy native_kind handle handle
  | Ev_map_memory handle bool
  | Ev_fill_upload_buffer handle
  | Ev_unmap_memory handle
  | Ev_copy_buffer_to_texture handle handle handle "32 word"
  | Ev_flush_and_wait handle
  | Ev_flush_immediate handle
  | Ev_has_commands handle
  | Ev_cmd_reset_query_pool handle handle "32 word" "32 word"
  | Ev_log_error

record image_create_info =
  ici_format :: nat
  ici_width :: "32 word"
  ici_height :: "32 word"
  ici_depth :: "32 word"
  ici_mip_levels :: "32 word"
  ici_array_layers :: "32 word"
  ici_samples :: "32 word"
  ici_usage :: "32 word"

record buffer_create_info =
  bci_size :: "64 word"
  bci_usage :: "32 word"

datatype resource_create_info = Image_info image_create_info | Buffer_info buffer_create_info

record resource_data =
  rd_object :: handle
  rd_info :: resource_create_info
  rd_allocation :: handle
  rd_owned :: bool

definition is_image :: "resource_data \<Rightarrow> bool" where
  "is_image data = (case rd_info data of Image_info _ \<Rightarrow> True | Buffer_info _ \<Rightarrow> False)"

datatype view_create_info = Image_view_info handle nat | Buffer_view_info handle nat

record resource_view_data =
  vd_object :: handle
  vd_info :: view_create_info
  vd_owned :: bool

record attachment =
  initial_layout :: nat
  clear_flags :: "32 word"
  format_flags :: "32 word"

record render_pass_data =
  rp_attachments :: "attachment list"

record framebuffer_data =
  fb_attachments :: "handle list"
  fb_attachment_types :: "32 word list"

record render_pass_impl =
  rpi_fbo :: handle
  rpi_render_pass :: handle
  rpi_width :: "32 word"
  rpi_height :: "32 word"

record command_queue =
  cq_orig :: handle
  cq_immediate :: "handle option"

record vk_device =
  debug_build :: bool
  resources :: "handle \<rightharpoonup> resource_data"
  views :: "handle \<rightharpoonup> resource_view_data"
  render_pass_list :: "handle \<rightharpoonup> render_pass_data"
  framebuffer_list :: "handle \<rightharpoonup> framebuffer_data"
  pass_impls :: "handle \<rightharpoonup> render_pass_impl"
  queues :: "command_queue list"
  vk_trace :: "vk_event list"

definition emit :: "vk_event \<Rightarrow> vk_device \<Rightarrow> vk_device" where
  "emit e d = d\<lparr>vk_trace := vk_trace d @ [e]\<rparr>"

text \<open>\<open>std::unordered_map::emplace\<close> keeps the old entry when the key is present.\<close>

definition emplace :: "('k \<rightharpoonup> 'v) \<Rightarrow> 'k \<Rightarrow> 'v \<Rightarrow> ('k \<rightharpoonup> 'v)" where
  "emplace m k v = (case m k of None \<Rightarrow> m(k \<mapsto> v) | Some _ \<Rightarrow> m)"

definition erase :: "('k \<rightharpoonup> 'v) \<Rightarrow> 'k \<Rightarrow> ('k \<rightharpoonup> 'v)" where
  "erase m k = m(k := None)"

definition lookup_resource :: "vk_device \<Rightarrow> handle \<Rightarrow> error + resource_data" where
  "lookup_resource d resource =
     (if debug_build d \<and> resource = 0 then Inl Assertion_failed
      else case resources d resource of
             None \<Rightarrow> Inl Out_of_range
           | Some data \<Rightarrow> Inr data)"

definition lookup_resource_view :: "vk_device \<Rightarrow> handle \<Rightarrow> error + resource_view_data" where
  "lookup_resource_view d view =
     (if debug_build d \<and> view = 0 then Inl Assertion_failed
      else case views d view of
             None \<Rightarrow> Inl Out_of_range
           | Some data \<Rightarrow> Inr data)"

definition register_image ::
  "handle \<Rightarrow> image_create_info \<Rightarrow> handle \<Rightarrow> bool \<Rightarrow> vk_device \<Rightarrow> vk_device" where
  "register_image img create_info allocation owned d =
     emit (Ev_register img)
       (d\<lparr>resources := emplace (resources d) img
            \<lparr>rd_object = img, rd_info = Image_info create_info,
             rd_allocation = allocation, rd_owned = owned\<rparr>\<rparr>)"

definition register_buffer ::
  "handle \<Rightarrow> buffer_create_info \<Rightarrow> handle \<Rightarrow> bool \<Rightarrow> vk_device \<Rightarrow> vk_device" where
  "register_buffer buffer create_info allocation owned d =
     emit (Ev_register buffer)
       (d\<lparr>resources := emplace (resources d) buffer
            \<lparr>rd_object = buffer, rd_info = Buffer_info create_info,
             rd_allocation = allocation, rd_owned = owned\<rparr>\<rparr>)"

definition is_resource_handle_valid :: "vk_device \<Rightarrow> handle \<Rightarrow> bool" where
  "is_resource_handle_valid d h = (if h = 0 then False else resources d h \<noteq> None)"

text \<open>
  The loop \<open>for (command_queue_impl *const queue : _queues)\<close> that stops at the first
  queue whose immediate command list is not null.
\<close>

fun first_immediate :: "command_queue list \<Rightarrow> (command_queue \<times> handle) option" where
  "first_immediate [] = None"
| "first_immediate (q # qs) =
     (case cq_immediate q of
        Some cmd \<Rightarrow> Some (q, cmd)
      | None \<Rightarrow> first_immediate qs)"

section \<open>Vulkan: resources\<close>

text \<open>
  \<open>source/vulkan/reshade_api_device.cpp\<close>. The enumerations of the public API header
  are not among the sources: \<open>resource_type\<close> and \<open>memory_heap\<close> have the enumerators
  the code names and one more for every other value; \<open>resource_usage\<close> is a 32-bit
  mask whose \<open>undefined\<close> is zero (the code tests \<open>(usage & x) != undefined\<close>). The
  values of \<open>cpu_access\<close> and \<open>copy_dest\<close> and the conversion functions of
  \<open>reshade_api_type_convert.hpp\<close> are parameters, collected in \<open>vk_conv\<close>.
\<close>

datatype resource_type = Rt_buffer | Rt_texture_1d | Rt_texture_2d | Rt_texture_3d | Rt_other

datatype memory_heap = Heap_unknown | Heap_gpu_only | Heap_cpu_to_gpu | Heap_gpu_to_cpu
  | Heap_cpu_only

record resource_desc =
  desc_type :: resource_type
  desc_heap :: memory_heap
  desc_usage :: "32 word"
  desc_depth_or_layers :: "16 word"
  desc_levels :: "16 word"

record subresource_data =
  sd_data :: handle
  sd_row_pitch :: "32 word"
  sd_slice_pitch :: "32 word"

record vk_conv =
  cpu_access :: "32 word"
  copy_dest :: "32 word"
  convert_format :: "32 word \<Rightarrow> nat"
  convert_image_desc :: "resource_desc \<Rightarrow> image_create_info"
  convert_buffer_desc :: "resource_desc \<Rightarrow> buffer_create_info"

definition VK_IMAGE_USAGE_TRANSFER_DST_BIT :: "32 word" where
  "VK_IMAGE_USAGE_TRANSFER_DST_BIT = 0x2"

text \<open>
  What the native calls inside one \<open>upload_texture_region\<close> answer: \<open>vmaCreateBuffer\<close>
  gives the staging buffer and its memory or fails, \<open>vmaMapMemory\<close> succeeds or fails.
  The bytes copied are not modelled, nor is the \<open>dst_box\<close> that only sizes them.
\<close>

record upload_outcome =
  staging :: "(handle \<times> handle) option"
  map_ok :: bool

definition upload_texture_region ::
  "subresource_data \<Rightarrow> handle \<Rightarrow> 32 word \<Rightarrow> upload_outcome \<Rightarrow> vk_device \<Rightarrow> error + vk_device" where
  "upload_texture_region data dst dst_subresource outcome d =
     (case lookup_resource d dst of
        Inl e \<Rightarrow> Inl e
      | Inr dst_data \<Rightarrow>
          (case rd_info dst_data of
             Buffer_info _ \<Rightarrow> Inl (if debug_build d then Assertion_failed else Wrong_union_member)
           | Image_info _ \<Rightarrow>
               (case staging outcome of
                  None \<Rightarrow> Inr (emit Ev_log_error (emit (Ev_native_create_failed Staging_buffer) d))
                | Some (intermediate, intermediate_mem) \<Rightarrow>
                    let d1 = emit (Ev_native_create Staging_buffer intermediate) d;
                        d2 = emit (Ev_map_memory intermediate_mem (map_ok outcome)) d1;
                        d3 = (if map_ok outcome then
                                let d4 = emit (Ev_unmap_memory intermediate_mem)
                                           (emit (Ev_fill_upload_buffer (sd_data data)) d2)
                                in (case first_immediate (queues d4) of
                                      Some (queue, cmd) \<Rightarrow>
                                        emit (Ev_flush_and_wait (cq_orig queue))
                                          (emit (Ev_copy_buffer_to_texture cmd intermediate dst
                                                   dst_subresource) d4)
                                    | None \<Rightarrow> d4)
                              else d2)
                    in Inr (emit (Ev_vma_destroy Staging_buffer intermediate intermediate_mem) d3))))"

text \<open>
  The loop \<open>for (subresource = 0; subresource < depth_or_layers * levels; ++subresource)\<close>
  of \<open>create_resource\<close>: \<open>n\<close> counts the iterations left.
\<close>

fun upload_subresources ::
  "subresource_data list \<Rightarrow> handle \<Rightarrow> nat \<Rightarrow> nat \<Rightarrow> (nat \<Rightarrow> upload_outcome) \<Rightarrow> vk_device
     \<Rightarrow> error + vk_device" where
  "upload_subresources initial_data dst subresource 0 outcomes d = Inr d"
| "upload_subresources initial_data dst subresource (Suc n) outcomes d =
     (if subresource < length initial_data then
        (case upload_texture_region (initial_data ! subresource) dst (of_nat subresource)
                (outcomes subresource) d of
           Inl e \<Rightarrow> Inl e
         | Inr d' \<Rightarrow> upload_subresources initial_data dst (Suc subresource) n outcomes d')
      else Inl Out_of_bounds)"

definition transition_initial_state ::
  "vk_conv \<Rightarrow> resource_desc \<Rightarrow> subresource_data list option \<Rightarrow> 32 word \<Rightarrow> handle
     \<Rightarrow> (nat \<Rightarrow> upload_outcome) \<Rightarrow> vk_device \<Rightarrow> error + vk_device" where
  "transition_initial_state cv desc initial_data initial_state out outcomes d =
     (case first_immediate (queues d) of
        None \<Rightarrow> Inr d
      | Some (queue, cmd) \<Rightarrow>
          (case initial_data of
             Some data \<Rightarrow>
               (case upload_subresources data out 0
                       (unat (desc_depth_or_layers desc) * unat (desc_levels desc)) outcomes
                       (emit (Ev_barrier cmd out 0 (copy_dest cv)) d) of
                  Inl e \<Rightarrow> Inl e
                | Inr d1 \<Rightarrow>
                    Inr (emit (Ev_flush_immediate (cq_orig queue))
                          (emit (Ev_barrier cmd out (copy_dest cv) initial_state) d1)))
           | None \<Rightarrow>
               Inr (emit (Ev_flush_immediate (cq_orig queue))
                     (emit (Ev_barrier cmd out 0 initial_state) d))))"

text \<open>
  \<open>create_resource\<close>. \<open>native\<close> is the answer of \<open>vkCreateBuffer\<close> / \<open>vmaCreateBuffer\<close>
  (or the image calls): the object and, from VMA, its allocation. With
  \<open>memory_heap::unknown\<close> the plain Vulkan call is made and the allocation stays null.
  The result is the returned flag, the handle written to \<open>*out\<close> and the device.
\<close>

definition create_resource ::
  "vk_conv \<Rightarrow> resource_desc \<Rightarrow> subresource_data list option \<Rightarrow> 32 word
     \<Rightarrow> (handle \<times> handle) option \<Rightarrow> (nat \<Rightarrow> upload_outcome) \<Rightarrow> vk_device
     \<Rightarrow> error + (bool \<times> handle \<times> vk_device)" where
  "create_resource cv desc initial_data initial_state native outcomes d =
     (if debug_build d \<and>
         \<not> (desc_usage desc AND initial_state = initial_state \<or> initial_state = cpu_access cv)
      then Inl Assertion_failed
      else
        (case desc_type desc of
           Rt_other \<Rightarrow> Inr (False, 0, d)
         | Rt_buffer \<Rightarrow>
             (case native of
                None \<Rightarrow> Inr (False, 0, emit (Ev_native_create_failed Buffer) d)
              | Some (object, alloc) \<Rightarrow>
                  let allocation = (if desc_heap desc = Heap_unknown then 0 else alloc);
                      d1 = emit (Ev_native_create Buffer object) d
                  in Inr (True, object,
                          register_buffer object (convert_buffer_desc cv desc) allocation True d1))
         | _ \<Rightarrow>
             (let info = convert_image_desc cv desc;
                  create_info = (if initial_data \<noteq> None
                                 then info\<lparr>ici_usage := ici_usage info OR VK_IMAGE_USAGE_TRANSFER_DST_BIT\<rparr>
                                 else info)
              in case native of
                   None \<Rightarrow> Inr (False, 0, emit (Ev_native_create_failed Image) d)
                 | Some (object, alloc) \<Rightarrow>
                     let allocation = (if desc_heap desc = Heap_unknown then 0 else alloc);
                         d1 = emit (Ev_native_create Image object) d;
                         d2 = register_image object create_info allocation True d1
                     in if debug_build d \<and> initial_data \<noteq> None \<and> initial_state = 0
                        then Inl Assertion_failed
                        else if initial_state \<noteq> 0 then
                          (case transition_initial_state cv desc initial_data initial_state object
                                  outcomes d2 of
                             Inl e \<Rightarrow> Inl e
                           | Inr d3 \<Rightarrow> Inr (True, object, d3))
                        else Inr (True, object, d2))))"

definition destroy_resource :: "handle \<Rightarrow> vk_device \<Rightarrow> error + vk_device" where
  "destroy_resource h d =
     (if h = 0 then Inr d
      else
        (case lookup_resource d h of
           Inl e \<Rightarrow> Inl e
         | Inr data \<Rightarrow>
             if debug_build d \<and> \<not> rd_owned data then Inl Assertion_failed
             else
               let kind = (if is_image data then Image else Buffer);
                   d1 = (if rd_allocation data = 0
                         then emit (Ev_native_destroy kind (rd_object data)) d
                         else emit (Ev_vma_destroy kind (rd_object data) (rd_allocation data)) d)
               in Inr (emit (Ev_unregister h) (d1\<lparr>resources := erase (resources d1) h\<rparr>))))"

text \<open>
  \<open>map_resource\<close>. \<open>data_in\<close> is what \<open>*data\<close> held before the call, \<open>mapped\<close> the
  answer of \<open>vmaMapMemory\<close>, which writes \<open>*data\<close> only when it succeeds. The result is
  the returned flag, \<open>*data\<close> after the call and the device. \<open>*row_pitch\<close> and
  \<open>*slice_pitch\<close> are always set to zero and are left out.
\<close>

definition map_resource ::
  "handle \<Rightarrow> 32 word \<Rightarrow> handle \<Rightarrow> handle option \<Rightarrow> vk_device
     \<Rightarrow> error + (bool \<times> handle \<times> vk_device)" where
  "map_resource resource subresource data_in mapped d =
     (case lookup_resource d resource of
        Inl e \<Rightarrow> Inl e
      | Inr res_data \<Rightarrow>
          if rd_allocation res_data \<noteq> 0 then
            (if debug_build d \<and> subresource \<noteq> 0 then Inl Assertion_failed
             else
               (case mapped of
                  Some ptr \<Rightarrow> Inr (True, ptr, emit (Ev_map_memory (rd_allocation res_data) True) d)
                | None \<Rightarrow> Inr (False, data_in, emit (Ev_map_memory (rd_allocation res_data) False) d)))
          else Inr (False, 0, d))"

section \<open>Vulkan: render passes and query pools\<close>

text \<open>
  \<open>aspect_flags_from_format\<close> with the values of the \<open>VkFormat\<close> and
  \<open>VkImageAspectFlagBits\<close> enumerators it names (Vulkan headers).
\<close>

definition VK_FORMAT_D16_UNORM :: nat where "VK_FORMAT_D16_UNORM = 124"
definition VK_FORMAT_D32_SFLOAT :: nat where "VK_FORMAT_D32_SFLOAT = 126"
definition VK_FORMAT_S8_UINT :: nat where "VK_FORMAT_S8_UINT = 127"
definition VK_FORMAT_D16_UNORM_S8_UINT :: nat where "VK_FORMAT_D16_UNORM_S8_UINT = 128"
definition VK_FORMAT_D32_SFLOAT_S8_UINT :: nat where "VK_FORMAT_D32_SFLOAT_S8_UINT = 130"

definition VK_IMAGE_ASPECT_COLOR_BIT :: "32 word" where "VK_IMAGE_ASPECT_COLOR_BIT = 0x1"
definition VK_IMAGE_ASPECT_DEPTH_BIT :: "32 word" where "VK_IMAGE_ASPECT_DEPTH_BIT = 0x2"
definition VK_IMAGE_ASPECT_STENCIL_BIT :: "32 word" where "VK_IMAGE_ASPECT_STENCIL_BIT = 0x4"

definition VK_IMAGE_LAYOUT_COLOR_ATTACHMENT_OPTIMAL :: nat where
  "VK_IMAGE_LAYOUT_COLOR_ATTACHMENT_OPTIMAL = 2"
definition VK_IMAGE_LAYOUT_DEPTH_STENCIL_ATTACHMENT_OPTIMAL :: nat where
  "VK_IMAGE_LAYOUT_DEPTH_STENCIL_ATTACHMENT_OPTIMAL = 3"

definition aspect_flags_from_format :: "nat \<Rightarrow> 32 word" where
  "aspect_flags_from_format format =
     (if VK_FORMAT_D16_UNORM \<le> format \<and> format \<le> VK_FORMAT_D32_SFLOAT
        then VK_IMAGE_ASPECT_DEPTH_BIT
      else if format = VK_FORMAT_S8_UINT
        then VK_IMAGE_ASPECT_STENCIL_BIT
      else if VK_FORMAT_D16_UNORM_S8_UINT \<le> format \<and> format \<le> VK_FORMAT_D32_SFLOAT_S8_UINT
        then VK_IMAGE_ASPECT_DEPTH_BIT OR VK_IMAGE_ASPECT_STENCIL_BIT
      else VK_IMAGE_ASPECT_COLOR_BIT)"

text \<open>
  \<open>render_pass_desc\<close>: the arrays \<open>render_targets[8]\<close> and \<open>render_targets_format[8]\<close>
  are lists; an entry beyond the end of the list is zero (\<open>at0\<close>).
\<close>

record render_pass_desc =
  render_targets :: "handle list"
  render_targets_format :: "32 word list"
  depth_stencil :: handle
  depth_stencil_format :: "32 word"

definition at0 :: "'a::zero list \<Rightarrow> nat \<Rightarrow> 'a" where
  "at0 xs i = (if i < length xs then xs ! i else 0)"

text \<open>
  What \<open>create_render_pass\<close> accumulates while it walks the attachments: the render
  area, the layer count, \<open>fbo_data\<close> and \<open>pass_data\<close>. The \<open>VkAttachmentReference\<close>
  and \<open>VkAttachmentDescription\<close> vectors only feed the native call and are left out.
\<close>

record pass_builder =
  pb_width :: "32 word"
  pb_height :: "32 word"
  pb_num_layers :: "32 word"
  pb_fbo_data :: framebuffer_data
  pb_pass_data :: render_pass_data

definition view_image :: "resource_view_data \<Rightarrow> error + handle" where
  "view_image v = (case vd_info v of
                     Image_view_info img _ \<Rightarrow> Inr img
                   | Buffer_view_info _ _ \<Rightarrow> Inl Wrong_union_member)"

definition resource_image_info :: "resource_data \<Rightarrow> error + image_create_info" where
  "resource_image_info r = (case rd_info r of
                              Image_info ici \<Rightarrow> Inr ici
                            | Buffer_info _ \<Rightarrow> Inl Wrong_union_member)"

text \<open>
  One attachment of either loop body: both lookups, the minimum of the extents and the
  three \<open>push_back\<close>s. \<open>attachment_type\<close> is what goes into
  \<open>fbo_data.attachment_types\<close>: the color bit for a render target, the aspect of the
  converted format for the depth-stencil view.
\<close>

definition add_attachment ::
  "vk_device \<Rightarrow> handle \<Rightarrow> nat \<Rightarrow> nat \<Rightarrow> 32 word \<Rightarrow> pass_builder \<Rightarrow> error + pass_builder" where
  "add_attachment d view format layout attachment_type pb =
     (case lookup_resource_view d view of
        Inl e \<Rightarrow> Inl e
      | Inr view_info \<Rightarrow>
          (case view_image view_info of
             Inl e \<Rightarrow> Inl e
           | Inr img \<Rightarrow>
               (case lookup_resource d img of
                  Inl e \<Rightarrow> Inl e
                | Inr resource_info \<Rightarrow>
                    (case resource_image_info resource_info of
                       Inl e \<Rightarrow> Inl e
                     | Inr ici \<Rightarrow>
                         Inr (pb\<lparr>pb_width := min (ici_width ici) (pb_width pb),
                                 pb_height := min (ici_height ici) (pb_height pb),
                                 pb_num_layers := min (ici_array_layers ici) (pb_num_layers pb),
                                 pb_fbo_data :=
                                   \<lparr>fb_attachments = fb_attachments (pb_fbo_data pb) @ [view],
                                    fb_attachment_types =
                                      fb_attachment_types (pb_fbo_data pb) @ [attachment_type]\<rparr>,
                                 pb_pass_data :=
                                   \<lparr>rp_attachments = rp_attachments (pb_pass_data pb) @
                                      [\<lparr>initial_layout = layout, clear_flags = 0,
                                        format_flags = aspect_flags_from_format format\<rparr>]\<rparr>\<rparr>)))))"

text \<open>
  \<open>for (i = 0; i < 8 && desc.render_targets[i].handle != 0; ++i)\<close>: \<open>n\<close> is \<open>8 - i\<close>.
\<close>

fun color_attachments ::
  "vk_conv \<Rightarrow> vk_device \<Rightarrow> render_pass_desc \<Rightarrow> nat \<Rightarrow> nat \<Rightarrow> pass_builder \<Rightarrow> error + pass_builder" where
  "color_attachments cv d desc i 0 pb = Inr pb"
| "color_attachments cv d desc i (Suc n) pb =
     (if at0 (render_targets desc) i \<noteq> 0 then
        (case add_attachment d (at0 (render_targets desc) i)
                (convert_format cv (at0 (render_targets_format desc) i))
                VK_IMAGE_LAYOUT_COLOR_ATTACHMENT_OPTIMAL VK_IMAGE_ASPECT_COLOR_BIT pb of
           Inl e \<Rightarrow> Inl e
         | Inr pb' \<Rightarrow> color_attachments cv d desc (Suc i) n pb')
      else Inr pb)"

definition empty_pass_builder :: pass_builder where
  "empty_pass_builder =
     \<lparr>pb_width = 0xFFFFFFFF, pb_height = 0xFFFFFFFF, pb_num_layers = 0xFFFFFFFF,
      pb_fbo_data = \<lparr>fb_attachments = [], fb_attachment_types = []\<rparr>,
      pb_pass_data = \<lparr>rp_attachments = []\<rparr>\<rparr>"

definition collect_attachments ::
  "vk_conv \<Rightarrow> vk_device \<Rightarrow> render_pass_desc \<Rightarrow> error + pass_builder" where
  "collect_attachments cv d desc =
     (case color_attachments cv d desc 0 8 empty_pass_builder of
        Inl e \<Rightarrow> Inl e
      | Inr pb \<Rightarrow>
          if depth_stencil desc \<noteq> 0 then
            add_attachment d (depth_stencil desc) (convert_format cv (depth_stencil_format desc))
              VK_IMAGE_LAYOUT_DEPTH_STENCIL_ATTACHMENT_OPTIMAL
              (aspect_flags_from_format (convert_format cv (depth_stencil_format desc))) pb
          else Inr pb)"

text \<open>
  \<open>create_render_pass\<close>. \<open>pass_created\<close> and \<open>fbo_created\<close> are the answers of
  \<open>vkCreateRenderPass\<close> and \<open>vkCreateFramebuffer\<close> (\<open>None\<close>: not \<open>VK_SUCCESS\<close>),
  \<open>p\<close> is the address of the \<open>new render_pass_impl\<close>.
\<close>

definition create_render_pass ::
  "vk_conv \<Rightarrow> render_pass_desc \<Rightarrow> handle option \<Rightarrow> handle option \<Rightarrow> handle \<Rightarrow> vk_device
     \<Rightarrow> error + (bool \<times> handle \<times> vk_device)" where
  "create_render_pass cv desc pass_created fbo_created p d =
     (case collect_attachments cv d desc of
        Inl e \<Rightarrow> Inl e
      | Inr pb \<Rightarrow>
          (case pass_created of
             None \<Rightarrow> Inr (False, 0, emit (Ev_native_create_failed Render_pass) d)
           | Some render_pass \<Rightarrow>
               let d1 = emit (Ev_native_create Render_pass render_pass) d
               in (case fbo_created of
                     None \<Rightarrow>
                       Inr (False, 0,
                            emit (Ev_native_destroy Render_pass render_pass)
                              (emit (Ev_native_create_failed Framebuffer) d1))
                   | Some fbo \<Rightarrow>
                       let d2 = emit (Ev_native_create Framebuffer fbo) d1;
                           d3 = d2\<lparr>render_pass_list :=
                                     emplace (render_pass_list d2) render_pass (pb_pass_data pb),
                                   framebuffer_list :=
                                     emplace (framebuffer_list d2) fbo (pb_fbo_data pb)\<rparr>
                       in Inr (True, p,
                               d3\<lparr>pass_impls := (pass_impls d3)(p \<mapsto>
                                     \<lparr>rpi_fbo = fbo, rpi_render_pass = render_pass,
                                      rpi_width = pb_width pb, rpi_height = pb_height pb\<rparr>)\<rparr>))))"

text \<open>
  The loop of \<open>get_attachment\<close>: \<open>i\<close> is the position in \<open>pass_info.attachments\<close>
  of the head of the first argument, \<open>fbo_views\<close> is \<open>info.attachments\<close>.
\<close>

fun get_attachment_loop ::
  "attachment list \<Rightarrow> handle list \<Rightarrow> 32 word \<Rightarrow> nat \<Rightarrow> nat \<Rightarrow> error + (bool \<times> handle)" where
  "get_attachment_loop [] fbo_views ty i index = Inr (False, 0)"
| "get_attachment_loop (a # as) fbo_views ty i index =
     (if format_flags a AND ty \<noteq> 0 then
        (if index = 0 then
           (if i < length fbo_views then Inr (True, fbo_views ! i) else Inl Out_of_bounds)
         else get_attachment_loop as fbo_views ty (Suc i) (index - 1))
      else get_attachment_loop as fbo_views ty (Suc i) index)"

definition get_attachment ::
  "vk_device \<Rightarrow> handle \<Rightarrow> 32 word \<Rightarrow> nat \<Rightarrow> error + (bool \<times> handle)" where
  "get_attachment d pass ty index =
     (if debug_build d \<and> pass = 0 then Inl Assertion_failed
      else
        (case pass_impls d pass of
           None \<Rightarrow> Inl Invalid_pointer
         | Some pass_impl \<Rightarrow>
             (case framebuffer_list d (rpi_fbo pass_impl) of
                None \<Rightarrow> Inl Out_of_range
              | Some info \<Rightarrow>
                  (case render_pass_list d (rpi_render_pass pass_impl) of
                     None \<Rightarrow> Inl Out_of_range
                   | Some pass_info \<Rightarrow>
                       if debug_build d \<and> \<not> index \<le> length (rp_attachments pass_info)
                       then Inl Assertion_failed
                       else get_attachment_loop (rp_attachments pass_info) (fb_attachments info)
                              ty 0 index))))"

fun get_attachment_count_loop :: "attachment list \<Rightarrow> 32 word \<Rightarrow> nat \<Rightarrow> nat" where
  "get_attachment_count_loop [] ty count = count"
| "get_attachment_count_loop (a # as) ty count =
     (if format_flags a AND ty \<noteq> 0
      then get_attachment_count_loop as ty (Suc count)
      else get_attachment_count_loop as ty count)"

definition get_attachment_count :: "vk_device \<Rightarrow> handle \<Rightarrow> 32 word \<Rightarrow> error + nat" where
  "get_attachment_count d pass ty =
     (if debug_build d \<and> pass = 0 then Inl Assertion_failed
      else
        (case pass_impls d pass of
           None \<Rightarrow> Inl Invalid_pointer
         | Some pass_impl \<Rightarrow>
             (case render_pass_list d (rpi_render_pass pass_impl) of
                None \<Rightarrow> Inl Out_of_range
              | Some pass_info \<Rightarrow> Inr (get_attachment_count_loop (rp_attachments pass_info) ty 0))))"

text \<open>
  The attachments of a pass that match a type, in declaration order, as the
  specification words it: the views whose attachment has an aspect in common with the
  requested type.
\<close>

definition matching_views :: "attachment list \<Rightarrow> handle list \<Rightarrow> 32 word \<Rightarrow> handle list" where
  "matching_views atts vs ty =
     map snd (filter (\<lambda>av. format_flags (fst av) AND ty \<noteq> 0) (zip atts vs))"

text \<open>
  A pass handle the registry knows: it points to a \<open>render_pass_impl\<close> whose render
  pass and framebuffer are registered with the same number of attachments, and every
  framebuffer attachment is a non-null view.
\<close>

definition pass_registered :: "vk_device \<Rightarrow> handle \<Rightarrow> bool" where
  "pass_registered d pass =
     (case pass_impls d pass of
        None \<Rightarrow> False
      | Some pass_impl \<Rightarrow>
          (case framebuffer_list d (rpi_fbo pass_impl) of
             None \<Rightarrow> False
           | Some info \<Rightarrow>
               (case render_pass_list d (rpi_render_pass pass_impl) of
                  None \<Rightarrow> False
                | Some pass_info \<Rightarrow>
                    length (fb_attachments info) = length (rp_attachments pass_info) \<and>
                    0 \<notin> set (fb_attachments info))))"

text \<open>The invariant of the accumulator of \<open>create_render_pass\<close>.\<close>

definition builder_ok :: "pass_builder \<Rightarrow> bool" where
  "builder_ok pb =
     (length (fb_attachments (pb_fbo_data pb)) = length (rp_attachments (pb_pass_data pb)) \<and>
      0 \<notin> set (fb_attachments (pb_fbo_data pb)))"

datatype query_type = Qt_timestamp | Qt_pipeline_statistics | Qt_other

text \<open>
  \<open>create_query_pool\<close>: \<open>pool_created\<close> is the answer of \<open>vkCreateQueryPool\<close>. The
  body of \<open>flush_immediate_command_list\<close> is not among the sources; the call is
  recorded.
\<close>

definition create_query_pool ::
  "query_type \<Rightarrow> 32 word \<Rightarrow> handle option \<Rightarrow> vk_device \<Rightarrow> bool \<times> handle \<times> vk_device" where
  "create_query_pool ty count pool_created d =
     (case pool_created of
        Some pool \<Rightarrow>
          let d1 = emit (Ev_native_create Query_pool pool) d
          in (case first_immediate (queues d1) of
                Some (queue, cmd) \<Rightarrow>
                  (True, pool,
                   emit (Ev_flush_immediate (cq_orig queue))
                     (emit (Ev_has_commands cmd)
                        (emit (Ev_cmd_reset_query_pool cmd pool 0 count) d1)))
              | None \<Rightarrow> (True, pool, d1))
      | None \<Rightarrow> (False, 0, emit (Ev_native_create_failed Query_pool) d))"

section \<open>Vulkan: a concrete device\<close>

text \<open>
  A debug-build device with one queue that owns an immediate command list, and a 2D
  texture description with one layer and one mip level, used to run the operations on
  explicit inputs. \<open>vk_device1\<close> is the device after the texture \<open>0x10\<close> was created
  on \<open>vk_device0\<close> through the plain Vulkan call (no VMA allocation), \<open>vk_device2\<close>
  the device after that texture was destroyed again.
\<close>

definition vk_conv0 :: vk_conv where
  "vk_conv0 =
     \<lparr>cpu_access = 0xAC3, copy_dest = 0x400, convert_format = unat,
      convert_image_desc = (\<lambda>desc.
        \<lparr>ici_format = 37, ici_width = 256, ici_height = 256, ici_depth = 1,
         ici_mip_levels = ucast (desc_levels desc),
         ici_array_layers = ucast (desc_depth_or_layers desc),
         ici_samples = 1, ici_usage = desc_usage desc\<rparr>),
      convert_buffer_desc = (\<lambda>desc. \<lparr>bci_size = 64, bci_usage = desc_usage desc\<rparr>)\<rparr>"

definition vk_device0 :: vk_device where
  "vk_device0 =
     \<lparr>debug_build = True, resources = Map.empty, views = Map.empty,
      render_pass_list = Map.empty, framebuffer_list = Map.empty, pass_impls = Map.empty,
      queues = [\<lparr>cq_orig = 0x700, cq_immediate = Some 0x701\<rparr>], vk_trace = []\<rparr>"

definition texture_desc0 :: resource_desc where
  "texture_desc0 =
     \<lparr>desc_type = Rt_texture_2d, desc_heap = Heap_unknown, desc_usage = 0x10,
      desc_depth_or_layers = 1, desc_levels = 1\<rparr>"

definition pixels0 :: subresource_data where
  "pixels0 = \<lparr>sd_data = 0x900, sd_row_pitch = 1024, sd_slice_pitch = 262144\<rparr>"

definition upload_fails :: "nat \<Rightarrow> upload_outcome" where
  "upload_fails i = \<lparr>staging = None, map_ok = False\<rparr>"

definition texture_data0 :: resource_data where
  "texture_data0 =
     \<lparr>rd_object = 0x10,
      rd_info = Image_info
        \<lparr>ici_format = 37, ici_width = 256, ici_height = 256, ici_depth = 1,
         ici_mip_levels = 1, ici_array_layers = 1, ici_samples = 1, ici_usage = 0x10\<rparr>,
      rd_allocation = 0, rd_owned = True\<rparr>"

definition vk_device1 :: vk_device where
  "vk_device1 =
     vk_device0\<lparr>resources := [0x10 \<mapsto> texture_data0],
                vk_trace := [Ev_native_create Image 0x10, Ev_register 0x10]\<rparr>"

definition vk_device2 :: vk_device where
  "vk_device2 =
     vk_device0\<lparr>vk_trace := [Ev_native_create Image 0x10, Ev_register 0x10,
                             Ev_native_destroy Image 0x10, Ev_unregister 0x10]\<rparr>"

text \<open>
  \<open>vk_device3\<close> adds a depth-stencil texture \<open>0x12\<close> and one view of each texture
  (\<open>0x11\<close> of the color texture, \<open>0x13\<close> of the depth-stencil texture);
  \<open>vk_device4\<close> is the device after a render pass over both views was created on it.
\<close>

definition depth_data0 :: resource_data where
  "depth_data0 =
     \<lparr>rd_object = 0x12,
      rd_info = Image_info
        \<lparr>ici_format = 129, ici_width = 256, ici_height = 128, ici_depth = 1,
         ici_mip_levels = 1, ici_array_layers = 1, ici_samples = 1, ici_usage = 0x20\<rparr>,
      rd_allocation = 0, rd_owned = True\<rparr>"

definition vk_device3 :: vk_device where
  "vk_device3 =
     vk_device1\<lparr>resources := [0x10 \<mapsto> texture_data0, 0x12 \<mapsto> depth_data0],
                views := [0x11 \<mapsto> \<lparr>vd_object = 0x11, vd_info = Image_view_info 0x10 37,
                                     vd_owned = True\<rparr>,
                          0x13 \<mapsto> \<lparr>vd_object = 0x13, vd_info = Image_view_info 0x12 129,
                                     vd_owned = True\<rparr>]\<rparr>"

definition pass_desc0 :: render_pass_desc where
  "pass_desc0 =
     \<lparr>render_targets = [0x11, 0, 0, 0, 0, 0, 0, 0],
      render_targets_format = [37, 0, 0, 0, 0, 0, 0, 0],
      depth_stencil = 0x13, depth_stencil_format = 129\<rparr>"

definition pass_impl0 :: render_pass_impl where
  "pass_impl0 = \<lparr>rpi_fbo = 0x41, rpi_render_pass = 0x40, rpi_width = 256, rpi_height = 128\<rparr>"

definition pass_data0 :: render_pass_data where
  "pass_data0 =
     \<lparr>rp_attachments =
        [\<lparr>initial_layout = 2, clear_flags = 0, format_flags = 1\<rparr>,
         \<lparr>initial_layout = 3, clear_flags = 0, format_flags = 6\<rparr>]\<rparr>"

definition fbo_data0 :: framebuffer_data where
  "fbo_data0 = \<lparr>fb_attachments = [0x11, 0x13], fb_attachment_types = [1, 6]\<rparr>"

definition vk_device4 :: vk_device where
  "vk_device4 =
     vk_device3\<lparr>render_pass_list := [0x40 \<mapsto> pass_data0],
                framebuffer_list := [0x41 \<mapsto> fbo_data0],
                pass_impls := [0x8000 \<mapsto> pass_impl0],
                vk_trace := [Ev_native_create Image 0x10, Ev_register 0x10,
                             Ev_native_create Render_pass 0x40,
                             Ev_native_create Framebuffer 0x41]\<rparr>"

text \<open>
  A release-build device and a device-local 2D texture on it: \<open>vk_device5\<close> is
  \<open>vk_device_release\<close> after the texture \<open>0x10\<close> was created with
  \<open>memory_heap::gpu_only\<close>, so through VMA, which gave it the allocation \<open>0x20\<close>.
\<close>

definition vk_device_release :: vk_device where
  "vk_device_release = vk_device0\<lparr>debug_build := False\<rparr>"

definition gpu_texture_desc :: resource_desc where
  "gpu_texture_desc = texture_desc0\<lparr>desc_heap := Heap_gpu_only\<rparr>"

definition vk_device5 :: vk_device where
  "vk_device5 =
     vk_device_release\<lparr>resources := [0x10 \<mapsto> texture_data0\<lparr>rd_allocation := 0x20\<rparr>],
                       vk_trace := [Ev_native_create Image 0x10, Ev_register 0x10]\<rparr>"

text \<open>A device that has only a queue without an immediate command list.\<close>

definition vk_device_headless :: vk_device where
  "vk_device_headless = vk_device0\<lparr>queues := [\<lparr>cq_orig = 0x700, cq_immediate = None\<rparr>]\<rparr>"

section \<open>OpenGL: handles and device state\<close>

text \<open>
  \<open>source/opengl/reshade_api_device.cpp\<close>. Object names and enumerators are 32-bit
  (\<open>GLuint\<close>, \<open>GLenum\<close>); the enumerator values are those of the OpenGL headers.
  A handle carries the target in the bits from 40 up, the object name in the low 32
  bits and two flag bits at 32 and 33: this is how every function of the file takes
  handles apart (\<open>handle >> 40\<close>, \<open>handle & 0xFFFFFFFF\<close>, \<open>handle & 0x100000000\<close>,
  \<open>handle & 0x200000000\<close>).
\<close>

type_synonym glenum = "32 word"

definition GL_NONE :: glenum where [simp]: "GL_NONE = 0"
definition GL_BACK :: glenum where [simp]: "GL_BACK = 0x0405"
definition GL_TEXTURE :: glenum where [simp]: "GL_TEXTURE = 0x1702"
definition GL_TEXTURE_1D :: glenum where [simp]: "GL_TEXTURE_1D = 0x0DE0"
definition GL_TEXTURE_2D :: glenum where [simp]: "GL_TEXTURE_2D = 0x0DE1"
definition GL_TEXTURE_3D :: glenum where [simp]: "GL_TEXTURE_3D = 0x806F"
definition GL_TEXTURE_RECTANGLE :: glenum where [simp]: "GL_TEXTURE_RECTANGLE = 0x84F5"
definition GL_TEXTURE_CUBE_MAP :: glenum where [simp]: "GL_TEXTURE_CUBE_MAP = 0x8513"
definition GL_TEXTURE_1D_ARRAY :: glenum where [simp]: "GL_TEXTURE_1D_ARRAY = 0x8C18"
definition GL_TEXTURE_2D_ARRAY :: glenum where [simp]: "GL_TEXTURE_2D_ARRAY = 0x8C1A"
definition GL_TEXTURE_BUFFER :: glenum where [simp]: "GL_TEXTURE_BUFFER = 0x8C2A"
definition GL_TEXTURE_CUBE_MAP_ARRAY :: glenum where [simp]: "GL_TEXTURE_CUBE_MAP_ARRAY = 0x9009"
definition GL_TEXTURE_2D_MULTISAMPLE :: glenum where [simp]: "GL_TEXTURE_2D_MULTISAMPLE = 0x9100"
definition GL_TEXTURE_2D_MULTISAMPLE_ARRAY :: glenum where
  [simp]: "GL_TEXTURE_2D_MULTISAMPLE_ARRAY = 0x9102"
definition GL_RENDERBUFFER :: glenum where [simp]: "GL_RENDERBUFFER = 0x8D41"
definition GL_FRAMEBUFFER_DEFAULT :: glenum where [simp]: "GL_FRAMEBUFFER_DEFAULT = 0x8218"
definition GL_COLOR_ATTACHMENT0 :: glenum where [simp]: "GL_COLOR_ATTACHMENT0 = 0x8CE0"
definition GL_DEPTH_ATTACHMENT :: glenum where [simp]: "GL_DEPTH_ATTACHMENT = 0x8D00"
definition GL_STENCIL_ATTACHMENT :: glenum where [simp]: "GL_STENCIL_ATTACHMENT = 0x8D20"
definition GL_DEPTH_STENCIL_ATTACHMENT :: glenum where
  [simp]: "GL_DEPTH_STENCIL_ATTACHMENT = 0x821A"
definition GL_FRAMEBUFFER_COMPLETE :: glenum where [simp]: "GL_FRAMEBUFFER_COMPLETE = 0x8CD5"
definition GL_TIMESTAMP :: glenum where [simp]: "GL_TIMESTAMP = 0x8E28"

definition handle_target :: "handle \<Rightarrow> glenum" where
  "handle_target h = ucast (drop_bit 40 h)"

definition handle_object :: "handle \<Rightarrow> 32 word" where
  "handle_object h = ucast (h AND 0xFFFFFFFF)"

text \<open>
  Modelled from the spec: \<open>make_resource_view_handle\<close> and \<open>make_render_pass_handle\<close>
  are declared in \<open>opengl/reshade_api_device.hpp\<close>, which is not among the sources.
  The specification says the backend packs a type tag and the native name into one
  64-bit value; the layout is the one the functions above read back.
\<close>

definition make_resource_view_handle :: "glenum \<Rightarrow> 32 word \<Rightarrow> 8 word \<Rightarrow> handle" where
  "make_resource_view_handle target object extra_bits =
     push_bit 40 (ucast target) OR push_bit 32 (ucast extra_bits) OR ucast object"

definition make_render_pass_handle :: "32 word \<Rightarrow> 32 word \<Rightarrow> 8 word \<Rightarrow> handle" where
  "make_render_pass_handle fbo count extra_bits =
     push_bit 40 (ucast count) OR push_bit 32 (ucast extra_bits) OR ucast fbo"

text \<open>
  \<open>api::attachment_type\<close> is a bit mask; \<open>d3d9_device.cpp\<close> asserts statically that
  color, depth and stencil are \<open>D3DCLEAR_TARGET\<close>, \<open>D3DCLEAR_ZBUFFER\<close> and
  \<open>D3DCLEAR_STENCIL\<close>: 1, 2 and 4.
\<close>

definition attachment_color :: "32 word" where [simp]: "attachment_color = 1"
definition attachment_depth :: "32 word" where [simp]: "attachment_depth = 2"
definition attachment_stencil :: "32 word" where [simp]: "attachment_stencil = 4"

datatype descriptor_type = Sampler | Sampler_with_resource_view | Shader_resource_view
  | Unordered_access_view | Constant_buffer | Descriptor_other

record descriptor_range =
  range_binding :: "32 word"
  range_type :: descriptor_type
  range_count :: "32 word"

record descriptor_set_impl =
  set_type :: descriptor_type
  descriptors :: "handle list"

datatype gl_call =
    Gl_gen_framebuffers "32 word"
  | Gl_bind_framebuffer "32 word"
  | Gl_framebuffer_texture glenum "32 word"
  | Gl_framebuffer_renderbuffer glenum "32 word"
  | Gl_delete_framebuffers "32 word"
  | Gl_gen_textures "32 word"
  | Gl_bind_texture glenum "32 word"
  | Gl_texture_view "32 word" glenum "32 word" glenum
  | Gl_tex_buffer glenum "32 word"
  | Gl_tex_buffer_range glenum "32 word" "64 word" "64 word"
  | Gl_gen_queries nat
  | Gl_query_counter "32 word" glenum
  | Gl_begin_query glenum "32 word"
  | Gl_end_query glenum

text \<open>
  The device: the build flavour, what the GL queries of the file answer
  (\<open>_default_depth_format\<close>, \<open>get_fbo_attachment_param\<close> for the object type and
  the object name, \<open>get_tex_param\<close> for \<open>GL_TEXTURE_TARGET\<close>, \<open>get_tex_level_param\<close>
  for the internal format of level 0), the objects made with \<open>new\<close>, and the GL calls
  made so far.
\<close>

record gl_device =
  gl_debug :: bool
  default_depth_format :: glenum
  fbo_attachment_object_type :: "32 word \<Rightarrow> glenum \<Rightarrow> glenum"
  fbo_attachment_object_name :: "32 word \<Rightarrow> glenum \<Rightarrow> 32 word"
  texture_target :: "32 word \<Rightarrow> glenum"
  texture_internal_format :: "glenum \<Rightarrow> 32 word \<Rightarrow> glenum"
  set_layouts :: "handle \<rightharpoonup> descriptor_range"
  descriptor_sets :: "handle \<rightharpoonup> descriptor_set_impl"
  query_pools :: "handle \<rightharpoonup> 32 word list"
  gl_trace :: "gl_call list"

definition gl :: "gl_call \<Rightarrow> gl_device \<Rightarrow> gl_device" where
  "gl c g = g\<lparr>gl_trace := gl_trace g @ [c]\<rparr>"

section \<open>OpenGL: attachment queries\<close>

text \<open>
  \<open>get_attachment\<close> and \<open>get_attachment_count\<close> of the OpenGL device. The result of
  \<open>get_attachment\<close> is the returned flag and the view written to \<open>*out\<close>.
\<close>

definition get_attachment_gl ::
  "gl_device \<Rightarrow> handle \<Rightarrow> 32 word \<Rightarrow> 32 word \<Rightarrow> error + (bool \<times> handle)" where
  "get_attachment_gl g pass ty index =
     (if gl_debug g \<and> pass = 0 then Inl Assertion_failed
      else
        let fbo_object = handle_object pass in
        if fbo_object = 0 then
          (if ty = attachment_color
             then Inr (True, make_resource_view_handle GL_FRAMEBUFFER_DEFAULT GL_BACK 0)
           else if default_depth_format g \<noteq> GL_NONE
             then Inr (True, make_resource_view_handle GL_FRAMEBUFFER_DEFAULT
                               GL_DEPTH_STENCIL_ATTACHMENT 0)
           else Inr (False, make_resource_view_handle 0 0 0))
        else
          (case (if ty = attachment_color then
                   (if (ucast index :: 64 word) \<ge> drop_bit 40 pass then None
                    else Some (GL_COLOR_ATTACHMENT0 + index))
                 else if ty = attachment_depth then Some GL_DEPTH_ATTACHMENT
                 else if ty = attachment_stencil then Some GL_STENCIL_ATTACHMENT
                 else if ty = attachment_depth OR attachment_stencil
                   then Some GL_DEPTH_STENCIL_ATTACHMENT
                 else None) of
             None \<Rightarrow> Inr (False, make_resource_view_handle 0 0 0)
           | Some attachment \<Rightarrow>
               let target = fbo_attachment_object_type g fbo_object attachment in
               if target \<noteq> GL_NONE then
                 let object = fbo_attachment_object_name g fbo_object attachment;
                     target' = (if target = GL_TEXTURE then texture_target g object else target)
                 in Inr (True, make_resource_view_handle target' object 0)
               else Inr (False, make_resource_view_handle 0 0 0)))"

definition get_attachment_count_gl :: "gl_device \<Rightarrow> handle \<Rightarrow> 32 word \<Rightarrow> error + 32 word" where
  "get_attachment_count_gl g pass ty =
     (if gl_debug g \<and> pass = 0 then Inl Assertion_failed
      else if ty = attachment_color then Inr (ucast (drop_bit 40 pass))
      else Inr 1)"

section \<open>OpenGL: creating views, render passes and query pools\<close>

text \<open>
  The conversion functions of \<open>reshade_api_type_convert.hpp\<close> and
  \<open>api::format_to_default_typed\<close> are not among the sources; they are the parameters
  collected in \<open>gl_conv\<close>. \<open>api::format\<close> is a 32-bit enumeration.
\<close>

record gl_conv =
  convert_format_gl :: "32 word \<Rightarrow> glenum"
  format_to_default_typed :: "32 word \<Rightarrow> nat \<Rightarrow> 32 word"
  convert_query_type :: "query_type \<Rightarrow> glenum"

datatype resource_view_type = View_buffer | View_texture_1d | View_texture_1d_array
  | View_texture_2d | View_texture_2d_array | View_texture_2d_multisample
  | View_texture_2d_multisample_array | View_texture_3d | View_texture_cube
  | View_texture_cube_array | View_unknown

record resource_view_desc =
  rv_type :: resource_view_type
  rv_format :: "32 word"
  rv_first_level :: "32 word"
  rv_levels :: "32 word"
  rv_first_layer :: "32 word"
  rv_layers :: "32 word"
  rv_buffer_offset :: "64 word"
  rv_buffer_size :: "64 word"

definition view_target :: "resource_view_type \<Rightarrow> glenum option" where
  "view_target t =
     (case t of
        View_buffer \<Rightarrow> Some GL_TEXTURE_BUFFER
      | View_texture_1d \<Rightarrow> Some GL_TEXTURE_1D
      | View_texture_1d_array \<Rightarrow> Some GL_TEXTURE_1D_ARRAY
      | View_texture_2d \<Rightarrow> Some GL_TEXTURE_2D
      | View_texture_2d_array \<Rightarrow> Some GL_TEXTURE_2D_ARRAY
      | View_texture_2d_multisample \<Rightarrow> Some GL_TEXTURE_2D_MULTISAMPLE
      | View_texture_2d_multisample_array \<Rightarrow> Some GL_TEXTURE_2D_MULTISAMPLE_ARRAY
      | View_texture_3d \<Rightarrow> Some GL_TEXTURE_3D
      | View_texture_cube \<Rightarrow> Some GL_TEXTURE_CUBE_MAP
      | View_texture_cube_array \<Rightarrow> Some GL_TEXTURE_CUBE_MAP_ARRAY
      | View_unknown \<Rightarrow> None)"

definition srgb_bits :: "bool \<Rightarrow> 8 word" where
  "srgb_bits is_srgb_format = (if is_srgb_format then 0x2 else 0)"

text \<open>
  \<open>create_resource_view\<close>. \<open>out_in\<close> is what \<open>*out\<close> holds when the function is
  entered, \<open>out_is_current_event_handle\<close> is the test \<open>out == _current_event_handle\<close>,
  \<open>generated\<close> the name \<open>glGenTextures\<close> returns. The result is the returned flag,
  \<open>*out\<close> after the call and the device. The binds that save and restore the texture
  binding are left out.
\<close>

definition create_resource_view_gl ::
  "gl_conv \<Rightarrow> handle \<Rightarrow> resource_view_desc \<Rightarrow> handle \<Rightarrow> bool \<Rightarrow> 32 word \<Rightarrow> gl_device
     \<Rightarrow> error + (bool \<times> handle \<times> gl_device)" where
  "create_resource_view_gl cv resource desc out_in out_is_current_event_handle generated g =
     (if gl_debug g \<and> resource = 0 then Inl Assertion_failed
      else
        let is_srgb_format =
              (rv_format desc \<noteq> format_to_default_typed cv (rv_format desc) 0 \<and>
               rv_format desc = format_to_default_typed cv (rv_format desc) 1);
            resource_target = handle_target resource
        in
        if resource_target = GL_RENDERBUFFER \<or> resource_target = GL_FRAMEBUFFER_DEFAULT then
          Inr (True,
               make_resource_view_handle resource_target (handle_object resource)
                 (0x1 OR srgb_bits is_srgb_format), g)
        else
          (case view_target (rv_type desc) of
             None \<Rightarrow> (if gl_debug g then Inl Assertion_failed else Inr (False, out_in, g))
           | Some target \<Rightarrow>
               let internal_format = convert_format_gl cv (rv_format desc) in
               if internal_format = GL_NONE then Inr (False, out_in, g)
               else if target = resource_target \<and>
                       rv_first_level desc = 0 \<and> rv_first_layer desc = 0 \<and>
                       texture_internal_format g target (handle_object resource) = internal_format
               then
                 (if gl_debug g \<and> target = GL_TEXTURE_BUFFER then Inl Assertion_failed
                  else Inr (True,
                            make_resource_view_handle target (handle_object resource)
                              (0x1 OR srgb_bits is_srgb_format), g))
               else
                 (if out_is_current_event_handle \<and> gl_debug g \<and> handle_target out_in \<noteq> target
                  then Inl Assertion_failed
                  else
                    let object = (if out_is_current_event_handle then handle_object out_in
                                  else generated);
                        g1 = (if out_is_current_event_handle then g
                              else gl (Gl_gen_textures generated) g);
                        g2 = (if target \<noteq> GL_TEXTURE_BUFFER then
                                gl (Gl_texture_view object target (handle_object resource)
                                      internal_format) g1
                              else
                                (let g3 = gl (Gl_bind_texture target object) g1 in
                                 if rv_buffer_offset desc = 0 \<and> rv_buffer_size desc = - 1
                                 then gl (Gl_tex_buffer internal_format (handle_object resource)) g3
                                 else gl (Gl_tex_buffer_range internal_format
                                            (handle_object resource)
                                            (rv_buffer_offset desc) (rv_buffer_size desc)) g3))
                    in Inr (True,
                            make_resource_view_handle target object (srgb_bits is_srgb_format),
                            g2))))"

text \<open>
  \<open>create_render_pass\<close>. The targets a texture attachment may have, and the switch
  that attaches one view to the bound framebuffer (\<open>None\<close>: the \<open>default\<close> label).
\<close>

definition attachable_texture :: "glenum \<Rightarrow> bool" where
  "attachable_texture target =
     (target \<in> set [GL_TEXTURE, GL_TEXTURE_BUFFER, GL_TEXTURE_1D, GL_TEXTURE_1D_ARRAY,
                    GL_TEXTURE_2D, GL_TEXTURE_2D_ARRAY, GL_TEXTURE_2D_MULTISAMPLE,
                    GL_TEXTURE_2D_MULTISAMPLE_ARRAY, GL_TEXTURE_RECTANGLE])"

definition attach :: "glenum \<Rightarrow> handle \<Rightarrow> gl_device \<Rightarrow> gl_device option" where
  "attach attachment view g =
     (if attachable_texture (handle_target view)
        then Some (gl (Gl_framebuffer_texture attachment (handle_object view)) g)
      else if handle_target view = GL_RENDERBUFFER
        then Some (gl (Gl_framebuffer_renderbuffer attachment (handle_object view)) g)
      else None)"

text \<open>
  The loop over the render targets: \<open>i\<close> is the index, \<open>n\<close> is \<open>8 - i\<close>. It returns
  \<open>Inr\<close> of the number of color attachments, whether one of them is sRGB, and the
  device, or, when a target reached the \<open>default\<close> label, \<open>Inl\<close> of the device at
  that point (with the attachments made before it).
\<close>

fun attach_render_targets ::
  "handle list \<Rightarrow> nat \<Rightarrow> nat \<Rightarrow> bool \<Rightarrow> gl_device
     \<Rightarrow> gl_device + (nat \<times> bool \<times> gl_device)" where
  "attach_render_targets rts i 0 has_srgb g = Inr (i, has_srgb, g)"
| "attach_render_targets rts i (Suc n) has_srgb g =
     (if at0 rts i \<noteq> 0 then
        (case attach (GL_COLOR_ATTACHMENT0 + of_nat i) (at0 rts i) g of
           None \<Rightarrow> Inl g
         | Some g' \<Rightarrow>
             attach_render_targets rts (Suc i) n
               (has_srgb \<or> at0 rts i AND 0x200000000 \<noteq> 0) g')
      else Inr (i, has_srgb, g))"

definition abandon_framebuffer ::
  "32 word \<Rightarrow> 32 word \<Rightarrow> gl_device \<Rightarrow> error + (bool \<times> handle \<times> gl_device)" where
  "abandon_framebuffer prev_fbo fbo_object g =
     (if gl_debug g then Inl Assertion_failed
      else Inr (False, 0,
                gl (Gl_delete_framebuffers fbo_object) (gl (Gl_bind_framebuffer prev_fbo) g)))"

text \<open>
  \<open>prev_fbo\<close> is the framebuffer binding read at entry, \<open>fbo_object\<close> the name
  \<open>glGenFramebuffers\<close> returns, \<open>status\<close> the answer of \<open>glCheckFramebufferStatus\<close>.
  \<open>default_pass\<close> is the handle \<open>make_render_pass_handle(0)\<close> of the default
  framebuffer: the default arguments of that call are in the absent header.
\<close>

definition create_render_pass_gl ::
  "handle \<Rightarrow> render_pass_desc \<Rightarrow> 32 word \<Rightarrow> 32 word \<Rightarrow> glenum \<Rightarrow> gl_device
     \<Rightarrow> error + (bool \<times> handle \<times> gl_device)" where
  "create_render_pass_gl default_pass desc prev_fbo fbo_object status g =
     (if handle_target (at0 (render_targets desc) 0) = GL_FRAMEBUFFER_DEFAULT \<and>
         (depth_stencil desc = 0 \<or> handle_target (depth_stencil desc) = GL_FRAMEBUFFER_DEFAULT)
      then Inr (True, default_pass, g)
      else
        let g1 = gl (Gl_bind_framebuffer fbo_object) (gl (Gl_gen_framebuffers fbo_object) g) in
        (case attach_render_targets (render_targets desc) 0 8 False g1 of
           Inl g2 \<Rightarrow> abandon_framebuffer prev_fbo fbo_object g2
         | Inr (num_color_attachments, has_srgb_attachment, g2) \<Rightarrow>
             (case (if depth_stencil desc \<noteq> 0
                    then attach GL_DEPTH_STENCIL_ATTACHMENT (depth_stencil desc) g2
                    else Some g2) of
                None \<Rightarrow> abandon_framebuffer prev_fbo fbo_object g2
              | Some g3 \<Rightarrow>
                  let g4 = gl (Gl_bind_framebuffer prev_fbo) g3 in
                  if status = GL_FRAMEBUFFER_COMPLETE then
                    Inr (True,
                         make_render_pass_handle fbo_object (of_nat num_color_attachments)
                           (srgb_bits has_srgb_attachment), g4)
                  else Inr (False, 0, gl (Gl_delete_framebuffers fbo_object) g4))))"

text \<open>
  \<open>create_query_pool\<close>: \<open>pool_size\<close> is the parameter \<open>size\<close>, \<open>names\<close> are the query names \<open>glGenQueries\<close> writes, \<open>p\<close> the
  address of the \<open>new query_pool_impl\<close>. The loop issues, for each name in order, a
  timestamp or a begin/end pair.
\<close>

fun init_queries :: "gl_conv \<Rightarrow> query_type \<Rightarrow> 32 word list \<Rightarrow> gl_device \<Rightarrow> gl_device" where
  "init_queries cv ty [] g = g"
| "init_queries cv ty (q # qs) g =
     init_queries cv ty qs
       (if ty = Qt_timestamp then gl (Gl_query_counter q GL_TIMESTAMP) g
        else gl (Gl_end_query (convert_query_type cv ty))
               (gl (Gl_begin_query (convert_query_type cv ty) q) g))"

definition create_query_pool_gl ::
  "gl_conv \<Rightarrow> query_type \<Rightarrow> 32 word \<Rightarrow> (nat \<Rightarrow> 32 word) \<Rightarrow> handle \<Rightarrow> gl_device
     \<Rightarrow> bool \<times> handle \<times> gl_device" where
  "create_query_pool_gl cv ty pool_size names p g =
     (if ty = Qt_pipeline_statistics then (False, 0, g)
      else
        let queries = map names [0..<unat pool_size];
            g1 = gl (Gl_gen_queries (unat pool_size)) (g\<lparr>query_pools := (query_pools g)(p \<mapsto> queries)\<rparr>)
        in (True, p, init_queries cv ty queries g1))"

text \<open>What the loop issues for one query, as the specification describes it.\<close>

definition query_init_calls :: "gl_conv \<Rightarrow> query_type \<Rightarrow> 32 word \<Rightarrow> gl_call list" where
  "query_init_calls cv ty q =
     (if ty = Qt_timestamp then [Gl_query_counter q GL_TIMESTAMP]
      else [Gl_begin_query (convert_query_type cv ty) q, Gl_end_query (convert_query_type cv ty)])"

section \<open>OpenGL: emulated descriptor sets\<close>

text \<open>
  A descriptor set is a \<open>descriptor_set_impl\<close> made with \<open>new\<close>: its handle is its
  address, \<open>descriptor_sets\<close> maps the address to the object, so two handles that are
  equal name the same vector. An index computed in \<open>uint32_t\<close> is a 32-bit word; a
  read or write outside the vector is \<open>Inl Out_of_bounds\<close>, a handle that is no live
  set is \<open>Inl Invalid_pointer\<close>.
\<close>

record descriptor_set_write =
  w_set :: handle
  w_binding :: "32 word"
  w_array_offset :: "32 word"
  w_type :: descriptor_type
  w_sampler :: handle
  w_view :: handle
  w_resource :: handle
  w_offset :: "64 word"

record descriptor_set_copy =
  c_src_set :: handle
  c_src_binding :: "32 word"
  c_src_array_offset :: "32 word"
  c_dst_set :: handle
  c_dst_binding :: "32 word"
  c_dst_array_offset :: "32 word"
  c_count :: "32 word"
  c_type :: descriptor_type

definition create_descriptor_set_layout_gl ::
  "descriptor_range list \<Rightarrow> handle \<Rightarrow> gl_device \<Rightarrow> bool \<times> handle \<times> gl_device" where
  "create_descriptor_set_layout_gl ranges p g =
     (if length ranges \<noteq> 1 then (False, 0, g)
      else (True, p, g\<lparr>set_layouts := (set_layouts g)(p \<mapsto> ranges ! 0)\<rparr>))"

text \<open>
  The loop of \<open>create_descriptor_sets\<close>: \<open>i\<close> is the index, \<open>n\<close> the number of sets
  still to make, \<open>addrs i\<close> the address of the \<open>i\<close>-th \<open>new descriptor_set_impl\<close>.
  \<open>resize\<close> value-initialises the vector: every slot is zero. The size is computed in
  \<open>uint32_t\<close>.
\<close>

fun allocate_sets ::
  "handle \<Rightarrow> nat \<Rightarrow> nat \<Rightarrow> (nat \<Rightarrow> handle) \<Rightarrow> gl_device \<Rightarrow> error + (handle list \<times> gl_device)" where
  "allocate_sets layout i 0 addrs g = Inr ([], g)"
| "allocate_sets layout i (Suc n) addrs g =
     (case set_layouts g layout of
        None \<Rightarrow> Inl Invalid_pointer
      | Some layout_range \<Rightarrow>
          let new_set =
                \<lparr>set_type = range_type layout_range,
                 descriptors =
                   replicate
                     (unat (range_count layout_range *
                            (if range_type layout_range = Sampler_with_resource_view then 2 else 1)))
                     0\<rparr>
          in (case allocate_sets layout (Suc i) n addrs
                     (g\<lparr>descriptor_sets := (descriptor_sets g)(addrs i \<mapsto> new_set)\<rparr>) of
                Inl e \<Rightarrow> Inl e
              | Inr (out, g') \<Rightarrow> Inr (addrs i # out, g')))"

definition create_descriptor_sets_gl ::
  "handle \<Rightarrow> 32 word \<Rightarrow> (nat \<Rightarrow> handle) \<Rightarrow> gl_device
     \<Rightarrow> error + (bool \<times> handle list \<times> gl_device)" where
  "create_descriptor_sets_gl layout count addrs g =
     (case allocate_sets layout 0 (unat count) addrs g of
        Inl e \<Rightarrow> Inl e
      | Inr (out, g') \<Rightarrow> Inr (True, out, g'))"

definition load_descriptor :: "gl_device \<Rightarrow> handle \<Rightarrow> 32 word \<Rightarrow> error + handle" where
  "load_descriptor g set_handle index =
     (case descriptor_sets g set_handle of
        None \<Rightarrow> Inl Invalid_pointer
      | Some set_impl \<Rightarrow>
          if unat index < length (descriptors set_impl)
          then Inr (descriptors set_impl ! unat index)
          else Inl Out_of_bounds)"

definition store_descriptor :: "handle \<Rightarrow> 32 word \<Rightarrow> handle \<Rightarrow> gl_device \<Rightarrow> error + gl_device" where
  "store_descriptor set_handle index v g =
     (case descriptor_sets g set_handle of
        None \<Rightarrow> Inl Invalid_pointer
      | Some set_impl \<Rightarrow>
          if unat index < length (descriptors set_impl)
          then Inr (g\<lparr>descriptor_sets := (descriptor_sets g)(set_handle \<mapsto>
                        set_impl\<lparr>descriptors := (descriptors set_impl)[unat index := v]\<rparr>)\<rparr>)
          else Inl Out_of_bounds)"

definition write_descriptor :: "descriptor_set_write \<Rightarrow> gl_device \<Rightarrow> error + gl_device" where
  "write_descriptor info g =
     (case w_type info of
        Sampler \<Rightarrow>
          if gl_debug g \<and> w_sampler info = 0 then Inl Assertion_failed
          else store_descriptor (w_set info) (w_binding info) (w_sampler info) g
      | Sampler_with_resource_view \<Rightarrow>
          if gl_debug g \<and> w_sampler info = 0 then Inl Assertion_failed
          else
            (case store_descriptor (w_set info) (w_binding info * 2 + 0) (w_sampler info) g of
               Inl e \<Rightarrow> Inl e
             | Inr g1 \<Rightarrow>
                 if gl_debug g \<and> w_view info = 0 then Inl Assertion_failed
                 else store_descriptor (w_set info) (w_binding info * 2 + 1) (w_view info) g1)
      | Shader_resource_view \<Rightarrow>
          if gl_debug g \<and> w_view info = 0 then Inl Assertion_failed
          else store_descriptor (w_set info) (w_binding info) (w_view info) g
      | Unordered_access_view \<Rightarrow>
          if gl_debug g \<and> w_view info = 0 then Inl Assertion_failed
          else store_descriptor (w_set info) (w_binding info) (w_view info) g
      | Constant_buffer \<Rightarrow>
          if gl_debug g \<and> (w_resource info = 0 \<or> w_offset info \<noteq> 0) then Inl Assertion_failed
          else store_descriptor (w_set info) (w_binding info) (w_resource info) g
      | Descriptor_other \<Rightarrow> Inr g)"

text \<open>
  The two copy loops \<open>for (uint32_t k = 0; k < info.count; ++k)\<close>: \<open>k\<close> is the loop
  variable, \<open>n\<close> is \<open>count - k\<close>. Each iteration reads the source vector as it is at
  that moment.
\<close>

fun copy_single ::
  "handle \<Rightarrow> handle \<Rightarrow> 32 word \<Rightarrow> 32 word \<Rightarrow> nat \<Rightarrow> nat \<Rightarrow> gl_device \<Rightarrow> error + gl_device" where
  "copy_single src dst src_binding dst_binding k 0 g = Inr g"
| "copy_single src dst src_binding dst_binding k (Suc n) g =
     (case load_descriptor g src (src_binding + of_nat k) of
        Inl e \<Rightarrow> Inl e
      | Inr v \<Rightarrow>
          (case store_descriptor dst (dst_binding + of_nat k) v g of
             Inl e \<Rightarrow> Inl e
           | Inr g1 \<Rightarrow> copy_single src dst src_binding dst_binding (Suc k) n g1))"

fun copy_pairs ::
  "handle \<Rightarrow> handle \<Rightarrow> 32 word \<Rightarrow> 32 word \<Rightarrow> nat \<Rightarrow> nat \<Rightarrow> gl_device \<Rightarrow> error + gl_device" where
  "copy_pairs src dst src_binding dst_binding k 0 g = Inr g"
| "copy_pairs src dst src_binding dst_binding k (Suc n) g =
     (let sb = (src_binding + of_nat k) * 2;
          db = (dst_binding + of_nat k) * 2
      in case load_descriptor g src (sb + 0) of
           Inl e \<Rightarrow> Inl e
         | Inr v0 \<Rightarrow>
             (case store_descriptor dst (db + 0) v0 g of
                Inl e \<Rightarrow> Inl e
              | Inr g1 \<Rightarrow>
                  (case load_descriptor g1 src (sb + 1) of
                     Inl e \<Rightarrow> Inl e
                   | Inr v1 \<Rightarrow>
                       (case store_descriptor dst (db + 1) v1 g1 of
                          Inl e \<Rightarrow> Inl e
                        | Inr g2 \<Rightarrow> copy_pairs src dst src_binding dst_binding (Suc k) n g2))))"

definition copy_descriptor :: "descriptor_set_copy \<Rightarrow> gl_device \<Rightarrow> error + gl_device" where
  "copy_descriptor info g =
     (case c_type info of
        Sampler_with_resource_view \<Rightarrow>
          copy_pairs (c_src_set info) (c_dst_set info) (c_src_binding info) (c_dst_binding info)
            0 (unat (c_count info)) g
      | Descriptor_other \<Rightarrow> Inr g
      | _ \<Rightarrow>
          copy_single (c_src_set info) (c_dst_set info) (c_src_binding info) (c_dst_binding info)
            0 (unat (c_count info)) g)"

fun apply_writes :: "descriptor_set_write list \<Rightarrow> gl_device \<Rightarrow> error + gl_device" where
  "apply_writes [] g = Inr g"
| "apply_writes (w # ws) g =
     (case write_descriptor w g of Inl e \<Rightarrow> Inl e | Inr g' \<Rightarrow> apply_writes ws g')"

fun apply_copies :: "descriptor_set_copy list \<Rightarrow> gl_device \<Rightarrow> error + gl_device" where
  "apply_copies [] g = Inr g"
| "apply_copies (c # cs) g =
     (case copy_descriptor c g of Inl e \<Rightarrow> Inl e | Inr g' \<Rightarrow> apply_copies cs g')"

definition update_descriptor_sets ::
  "descriptor_set_write list \<Rightarrow> descriptor_set_copy list \<Rightarrow> gl_device \<Rightarrow> error + gl_device" where
  "update_descriptor_sets writes copies g =
     (case apply_writes writes g of Inl e \<Rightarrow> Inl e | Inr g' \<Rightarrow> apply_copies copies g')"

text \<open>
  What a binding of a set holds, as the specification reads it back: one handle, or
  the sampler and the view of a sampler-with-resource-view binding.
\<close>

definition slots :: "descriptor_type \<Rightarrow> nat" where
  "slots ty = (if ty = Sampler_with_resource_view then 2 else 1)"

definition binding_value :: "descriptor_type \<Rightarrow> descriptor_set_impl \<Rightarrow> nat \<Rightarrow> handle list" where
  "binding_value ty set_impl b =
     (if ty = Sampler_with_resource_view
      then [descriptors set_impl ! (2 * b), descriptors set_impl ! (2 * b + 1)]
      else [descriptors set_impl ! b])"

section \<open>OpenGL: a concrete device\<close>

text \<open>
  A release-build context without a default depth buffer. Framebuffer 7 has one color
  attachment (texture 5, a 2D texture) and no depth or stencil attachment.
\<close>

definition gl_conv0 :: gl_conv where
  "gl_conv0 =
     \<lparr>convert_format_gl = (\<lambda>f. if f = 0 then GL_NONE else 0x8058),
      format_to_default_typed = (\<lambda>f srgb. f),
      convert_query_type = (\<lambda>ty. 0x8914)\<rparr>"

definition gl_device0 :: gl_device where
  "gl_device0 =
     \<lparr>gl_debug = False, default_depth_format = GL_NONE,
      fbo_attachment_object_type =
        (\<lambda>fbo attachment. if fbo = 7 \<and> attachment = GL_COLOR_ATTACHMENT0 then GL_TEXTURE
                           else GL_NONE),
      fbo_attachment_object_name =
        (\<lambda>fbo attachment. if fbo = 7 \<and> attachment = GL_COLOR_ATTACHMENT0 then 5 else 0),
      texture_target = (\<lambda>object. GL_TEXTURE_2D),
      texture_internal_format = (\<lambda>target object. 0x8058),
      set_layouts = Map.empty, descriptor_sets = Map.empty, query_pools = Map.empty,
      gl_trace = []\<rparr>"

definition view_desc0 :: resource_view_desc where
  "view_desc0 =
     \<lparr>rv_type = View_texture_2d, rv_format = 0, rv_first_level = 0, rv_levels = 1,
      rv_first_layer = 0, rv_layers = 1, rv_buffer_offset = 0, rv_buffer_size = 0\<rparr>"

definition sampler_view_range :: descriptor_range where
  "sampler_view_range =
     \<lparr>range_binding = 0, range_type = Sampler_with_resource_view, range_count = 4\<rparr>"

text \<open>
  \<open>gl_device1\<close> holds two sampler-with-resource-view sets of four bindings: a filled
  one at address \<open>0x9100\<close> and a zero-initialised one at \<open>0x9200\<close>.
\<close>

definition filled_set :: descriptor_set_impl where
  "filled_set =
     \<lparr>set_type = Sampler_with_resource_view,
      descriptors = [0xA0, 0xB0, 0xA1, 0xB1, 0xA2, 0xB2, 0xA3, 0xB3]\<rparr>"

definition blank_set :: descriptor_set_impl where
  "blank_set =
     \<lparr>set_type = Sampler_with_resource_view, descriptors = [0, 0, 0, 0, 0, 0, 0, 0]\<rparr>"

definition gl_device1 :: gl_device where
  "gl_device1 = gl_device0\<lparr>descriptor_sets := [0x9100 \<mapsto> filled_set, 0x9200 \<mapsto> blank_set]\<rparr>"

definition set_addrs :: "nat \<Rightarrow> handle" where
  "set_addrs i = 0x9100 + of_nat i"

definition query_names :: "nat \<Rightarrow> 32 word" where
  "query_names i = 1 + of_nat i"

section \<open>Direct3D 9: results\<close>

text \<open>
  The depth-stencil path compares the new surface with the bound one: binding the
  surface that is already bound reports nothing and leaves the device as it was.
\<close>

lemma SetDepthStencilSurface_same:
  "SetDepthStencilSurface succeeded (dsv d) d = d"
  by (simp add: SetDepthStencilSurface_def)

lemma SetDepthStencilSurface_other:
  "z \<noteq> dsv d \<Longrightarrow>
   d3d9_events (SetDepthStencilSurface True z d) =
     d3d9_events d @ [Finish_render_pass, Begin_render_pass (current_pass d)]"
  by (simp add: SetDepthStencilSurface_def invoke_addon_event_def Let_def)

text \<open>
  C1. Render-pass emulation should report a finish/begin pair only when the bound
  attachment changes. \<open>SetRenderTarget\<close> has no such comparison: on a fresh device,
  binding surface \<open>0x1000\<close> to slot 0 and then binding the same surface to slot 0
  again reports a second \<open>finish_render_pass\<close> / \<open>begin_render_pass\<close> pair (events 3
  and 4 below), although the attachment did not change.
\<close>

theorem SetRenderTarget_rebind_emits_second_pair:
  "d3d9_events (SetRenderTarget to_float desc_640x480 True 0 0x1000
                 (SetRenderTarget to_float desc_640x480 True 0 0x1000 d3d9_fresh)) =
     [Begin_render_pass 0x5000, Bind_viewports (to_float 640) (to_float 480),
      Finish_render_pass, Begin_render_pass 0x5000,
      Bind_viewports (to_float 640) (to_float 480)]"
  by (simp add: SetRenderTarget_def invoke_addon_event_def d3d9_fresh_def desc_640x480_def Let_def)

section \<open>Vulkan: the registry under the resource operations\<close>

lemma emit_simps [simp]:
  "resources (emit e d) = resources d"
  "views (emit e d) = views d"
  "queues (emit e d) = queues d"
  "debug_build (emit e d) = debug_build d"
  "render_pass_list (emit e d) = render_pass_list d"
  "framebuffer_list (emit e d) = framebuffer_list d"
  "pass_impls (emit e d) = pass_impls d"
  "vk_trace (emit e d) = vk_trace d @ [e]"
  by (simp_all add: emit_def)

lemma lookup_resource_emit [simp]: "lookup_resource (emit e d) h = lookup_resource d h"
  by (simp add: lookup_resource_def)

lemma emplace_fresh: "m k = None \<Longrightarrow> emplace m k v = m(k \<mapsto> v)"
  by (simp add: emplace_def)

lemma emplace_dom: "emplace m k v k \<noteq> None"
  by (simp add: emplace_def split: option.splits)

lemma upload_texture_region_frame:
  assumes "upload_texture_region data dst sub oc d = Inr d'"
  shows "resources d' = resources d \<and> queues d' = queues d \<and> debug_build d' = debug_build d
         \<and> (\<exists>evs. vk_trace d' = vk_trace d @ evs \<and> Ev_unregister h \<notin> set evs)"
  using assms
  by (auto simp: upload_texture_region_def Let_def
           split: sum.splits resource_create_info.splits option.splits if_splits prod.splits)

lemma upload_texture_region_ok:
  assumes "resources d dst = Some rd" "rd_info rd = Image_info ici" "dst \<noteq> 0"
  shows "\<exists>d'. upload_texture_region data dst sub oc d = Inr d'"
  using assms
  by (auto simp: upload_texture_region_def lookup_resource_def Let_def
           split: sum.splits resource_create_info.splits option.splits if_splits prod.splits)

lemma upload_subresources_ok:
  assumes "resources d dst = Some rd" "rd_info rd = Image_info ici" "dst \<noteq> 0"
          "sub + n \<le> length data"
  shows "\<exists>d' evs. upload_subresources data dst sub n ocs d = Inr d' \<and>
           resources d' = resources d \<and> queues d' = queues d \<and> debug_build d' = debug_build d \<and>
           vk_trace d' = vk_trace d @ evs \<and> Ev_unregister h \<notin> set evs"
  using assms
proof (induction n arbitrary: sub d)
  case 0
  then show ?case by simp
next
  case (Suc n)
  from upload_texture_region_ok [OF Suc.prems(1-3)]
  obtain d1 where u: "upload_texture_region (data ! sub) dst (of_nat sub) (ocs sub) d = Inr d1"
    by blast
  from upload_texture_region_frame [OF u, of h]
  obtain evs1 where f: "resources d1 = resources d" "queues d1 = queues d"
      "debug_build d1 = debug_build d" "vk_trace d1 = vk_trace d @ evs1"
      "Ev_unregister h \<notin> set evs1"
    by blast
  have r: "resources d1 dst = Some rd" using f Suc.prems by simp
  have "Suc sub + n \<le> length data" using Suc.prems by simp
  from Suc.IH [OF r Suc.prems(2,3) this]
  obtain d' evs where s: "upload_subresources data dst (Suc sub) n ocs d1 = Inr d'"
      "resources d' = resources d1" "queues d' = queues d1" "debug_build d' = debug_build d1"
      "vk_trace d' = vk_trace d1 @ evs" "Ev_unregister h \<notin> set evs"
    by blast
  have lt: "sub < length data" using Suc.prems by simp
  show ?case
    using u s f lt by (intro exI [of _ d'] exI [of _ "evs1 @ evs"]) simp
qed


lemma transition_initial_state_ok:
  assumes "resources d out = Some rd" "rd_info rd = Image_info ici" "out \<noteq> 0"
    "\<And>data. initial_data = Some data \<Longrightarrow>
        unat (desc_depth_or_layers desc) * unat (desc_levels desc) \<le> length data"
  shows "\<exists>d' evs. transition_initial_state cv desc initial_data initial_state out ocs d = Inr d' \<and>
           resources d' = resources d \<and> vk_trace d' = vk_trace d @ evs \<and>
           Ev_unregister h \<notin> set evs"
proof (cases "first_immediate (queues d)")
  case None
  then show ?thesis by (simp add: transition_initial_state_def)
next
  case (Some qc)
  obtain queue cmd where qc: "qc = (queue, cmd)" by (cases qc)
  show ?thesis
  proof (cases initial_data)
    case None
    then show ?thesis using Some qc by (simp add: transition_initial_state_def)
  next
    case (Some data)
    let ?d0 = "emit (Ev_barrier cmd out 0 (copy_dest cv)) d"
    let ?n = "unat (desc_depth_or_layers desc) * unat (desc_levels desc)"
    have r: "resources ?d0 out = Some rd" using assms(1) by simp
    have len: "0 + ?n \<le> length data" using assms(4) [OF Some] by simp
    from upload_subresources_ok [OF r assms(2,3) len, of ocs h]
    obtain d1 evs where u: "upload_subresources data out 0 ?n ocs ?d0 = Inr d1"
        "resources d1 = resources ?d0" "vk_trace d1 = vk_trace ?d0 @ evs"
        "Ev_unregister h \<notin> set evs"
      by blast
    show ?thesis
      using u \<open>first_immediate (queues d) = Some qc\<close> qc Some
      by (simp add: transition_initial_state_def)
  qed
qed

text \<open>
  C3. When \<open>create_resource\<close> is called with initial data and the native creation
  succeeds with a new non-null object, the first two effects of the call are the native
  allocation and the registration of the object; everything else the call does, every
  upload included, comes after them. Whatever the native calls inside the uploads
  answer (\<open>outcomes\<close> is arbitrary: the staging buffer may fail, the mapping may fail),
  the call returns true with the object as handle, the handle is valid afterwards and
  nothing after the registration unregisters it. The hypotheses \<open>st\<close> and \<open>usage\<close> are
  the two assertions of the function, so the statement holds in debug builds too.
\<close>

theorem create_resource_registers_before_upload:
  assumes native: "native = Some (object, alloc)" and nz: "object \<noteq> 0"
    and fresh: "resources d object = None"
    and ty: "desc_type desc \<noteq> Rt_other"
    and data: "initial_data = Some data"
    and len: "unat (desc_depth_or_layers desc) * unat (desc_levels desc) \<le> length data"
    and st: "initial_state \<noteq> 0"
    and usage: "desc_usage desc AND initial_state = initial_state"
  shows "\<exists>d' kind rest.
           create_resource cv desc initial_data initial_state native outcomes d = Inr (True, object, d') \<and>
           is_resource_handle_valid d' object \<and>
           vk_trace d' = vk_trace d @ Ev_native_create kind object # Ev_register object # rest \<and>
           Ev_unregister object \<notin> set rest"
proof (cases "desc_type desc = Rt_buffer")
  case True
  then show ?thesis
    using native nz usage fresh
    by (simp add: create_resource_def register_buffer_def is_resource_handle_valid_def
                  emplace_fresh Let_def)
next
  case False
  let ?info = "convert_image_desc cv desc"
  let ?ci = "?info\<lparr>ici_usage := ici_usage ?info OR VK_IMAGE_USAGE_TRANSFER_DST_BIT\<rparr>"
  let ?alloc = "if desc_heap desc = Heap_unknown then 0 else alloc"
  let ?d2 = "register_image object ?ci ?alloc True (emit (Ev_native_create Image object) d)"
  let ?rd = "\<lparr>rd_object = object, rd_info = Image_info ?ci, rd_allocation = ?alloc, rd_owned = True\<rparr>"
  have r: "resources ?d2 object = Some ?rd"
    using fresh by (simp add: register_image_def emplace_fresh)
  have i: "rd_info ?rd = Image_info ?ci" by simp
  have l: "\<And>xs. initial_data = Some xs \<Longrightarrow>
             unat (desc_depth_or_layers desc) * unat (desc_levels desc) \<le> length xs"
    using data len by simp
  from transition_initial_state_ok [OF r i nz l, of initial_data cv initial_state outcomes object]
  obtain d' evs where t:
      "transition_initial_state cv desc initial_data initial_state object outcomes ?d2 = Inr d'"
      "resources d' = resources ?d2" "vk_trace d' = vk_trace ?d2 @ evs"
      "Ev_unregister object \<notin> set evs"
    by blast
  have tr: "vk_trace ?d2 = vk_trace d @ [Ev_native_create Image object, Ev_register object]"
    by (simp add: register_image_def)
  have c: "create_resource cv desc initial_data initial_state native outcomes d = Inr (True, object, d')"
    using False ty native data st usage t(1)
    by (cases "desc_type desc") (simp_all add: create_resource_def Let_def)
  have v: "is_resource_handle_valid d' object"
    using t(2) r nz by (simp add: is_resource_handle_valid_def)
  show ?thesis
    using c v t(3,4) tr by (intro exI [of _ d'] exI [of _ Image] exI [of _ evs]) simp
qed


theorem create_resource_registers_before_upload_witness:
  "staging (upload_fails 0) = None \<and>
   (\<exists>d' kind rest.
      create_resource vk_conv0 texture_desc0 (Some [pixels0]) 0x10 (Some (0x10, 0x20))
        upload_fails vk_device0 = Inr (True, 0x10, d') \<and>
      is_resource_handle_valid d' 0x10 \<and>
      vk_trace d' = vk_trace vk_device0 @ Ev_native_create kind 0x10 # Ev_register 0x10 # rest \<and>
      Ev_unregister 0x10 \<notin> set rest)"
proof -
  have "\<exists>d' kind rest.
      create_resource vk_conv0 texture_desc0 (Some [pixels0]) 0x10 (Some (0x10, 0x20))
        upload_fails vk_device0 = Inr (True, 0x10, d') \<and>
      is_resource_handle_valid d' 0x10 \<and>
      vk_trace d' = vk_trace vk_device0 @ Ev_native_create kind 0x10 # Ev_register 0x10 # rest \<and>
      Ev_unregister 0x10 \<notin> set rest"
    by (rule create_resource_registers_before_upload [where data = "[pixels0]" and alloc = "0x20"])
       (simp_all add: vk_device0_def texture_desc0_def)
  then show ?thesis by (simp add: upload_fails_def)
qed

lemma upload_subresources_frame:
  "upload_subresources data dst sub n ocs d = Inr d' \<Longrightarrow>
     resources d' = resources d \<and> debug_build d' = debug_build d"
proof (induction n arbitrary: sub d)
  case 0
  then show ?case by simp
next
  case (Suc n)
  then show ?case
    by (auto split: if_splits sum.splits dest!: upload_texture_region_frame)
qed

lemma transition_initial_state_frame:
  "transition_initial_state cv desc initial_data initial_state out ocs d = Inr d' \<Longrightarrow>
     resources d' = resources d \<and> debug_build d' = debug_build d"
  by (auto simp: transition_initial_state_def
           split: option.splits prod.splits sum.splits dest!: upload_subresources_frame)

lemma create_resource_success:
  assumes "create_resource cv desc initial_data initial_state native outcomes d = Inr (True, h, d1)"
    and "resources d h = None"
  shows "\<exists>rd. resources d1 h = Some rd \<and> rd_owned rd \<and> debug_build d1 = debug_build d"
  using assms
  by (cases "desc_type desc")
     (auto simp: create_resource_def register_buffer_def register_image_def emplace_fresh Let_def
           split: if_splits option.splits sum.splits dest!: transition_initial_state_frame)

lemma destroy_resource_registered:
  assumes "resources d h = Some rd" "rd_owned rd" "h \<noteq> 0"
  shows "\<exists>d2. destroy_resource h d = Inr d2 \<and> resources d2 = (resources d)(h := None) \<and>
           debug_build d2 = debug_build d"
  using assms by (simp add: destroy_resource_def lookup_resource_def erase_def Let_def)

lemma destroy_resource_unregistered:
  "resources d h = None \<Longrightarrow> h \<noteq> 0 \<Longrightarrow> destroy_resource h d = Inl Out_of_range"
  by (simp add: destroy_resource_def lookup_resource_def)

text \<open>
  A second \<open>destroy_resource\<close> on the same handle does not return: the registry
  lookup \<open>_resources.at(handle)\<close> throws. On the concrete device, creating texture
  \<open>0x10\<close>, destroying it and destroying it again ends in \<open>std::out_of_range\<close>.
\<close>

theorem destroy_resource_second_call_throws:
  "create_resource vk_conv0 texture_desc0 None 0 (Some (0x10, 0x20)) upload_fails vk_device0
     = Inr (True, 0x10, vk_device1) \<and>
   destroy_resource 0x10 vk_device1 = Inr vk_device2 \<and>
   destroy_resource 0x10 vk_device2 = Inl Out_of_range"
  by (simp add: create_resource_def destroy_resource_def lookup_resource_def register_image_def
        emplace_def erase_def emit_def is_image_def vk_device0_def vk_device1_def vk_device2_def
        vk_conv0_def texture_desc0_def texture_data0_def Let_def)

text \<open>
  C4 (amended). A handle returned by a successful \<open>create_resource\<close> (non-null, not
  registered before) is valid; \<open>destroy_resource\<close> on it succeeds and the handle is
  not valid afterwards; a second \<open>destroy_resource\<close> on the same handle fails in the
  registry lookup with \<open>std::out_of_range\<close>.
\<close>

theorem destroy_resource_twice:
  assumes c: "create_resource cv desc initial_data initial_state native outcomes d = Inr (True, h, d1)"
    and nz: "h \<noteq> 0" and fresh: "resources d h = None"
  shows "is_resource_handle_valid d1 h \<and>
         (\<exists>d2. destroy_resource h d1 = Inr d2 \<and> \<not> is_resource_handle_valid d2 h \<and>
                destroy_resource h d2 = Inl Out_of_range)"
proof -
  from create_resource_success [OF c fresh]
  obtain rd where rd: "resources d1 h = Some rd" "rd_owned rd" by blast
  from destroy_resource_registered [OF rd nz]
  obtain d2 where d2: "destroy_resource h d1 = Inr d2" "resources d2 = (resources d1)(h := None)"
    by blast
  have gone: "resources d2 h = None" using d2(2) by simp
  show ?thesis
    using rd(1) nz d2(1) gone destroy_resource_unregistered [OF gone nz]
    by (simp add: is_resource_handle_valid_def)
qed

theorem destroy_resource_twice_witness:
  "(0x10 :: handle) \<noteq> 0 \<and> resources vk_device0 0x10 = None \<and>
   is_resource_handle_valid vk_device1 0x10 \<and>
   (\<exists>d2. destroy_resource 0x10 vk_device1 = Inr d2 \<and> \<not> is_resource_handle_valid d2 0x10 \<and>
          destroy_resource 0x10 d2 = Inl Out_of_range)"
proof -
  have c: "create_resource vk_conv0 texture_desc0 None 0 (Some (0x10, 0x20)) upload_fails vk_device0
             = Inr (True, 0x10, vk_device1)"
    by (simp add: create_resource_def register_image_def emplace_def emit_def vk_device0_def
          vk_device1_def vk_conv0_def texture_desc0_def texture_data0_def Let_def)
  have nz: "(0x10 :: handle) \<noteq> 0" by simp
  have fresh: "resources vk_device0 0x10 = None" by (simp add: vk_device0_def)
  show ?thesis
    using destroy_resource_twice [OF c nz fresh] nz fresh by simp
qed

text \<open>
  Which resources have an allocation: \<open>create_resource\<close> leaves it null only for
  \<open>memory_heap::unknown\<close>; every other heap, \<open>gpu_only\<close> included, gets the allocation
  VMA returns.
\<close>

lemma create_resource_allocation:
  assumes "create_resource cv desc initial_data initial_state (Some (object, alloc)) outcomes d
             = Inr (True, h, d1)"
    and "resources d object = None"
  shows "h = object \<and>
         (\<exists>rd. resources d1 h = Some rd \<and>
               rd_allocation rd = (if desc_heap desc = Heap_unknown then 0 else alloc))"
  using assms
  by (cases "desc_type desc")
     (auto simp: create_resource_def register_buffer_def register_image_def emplace_fresh Let_def
           split: if_splits option.splits sum.splits dest!: transition_initial_state_frame)

text \<open>
  \<open>map_resource\<close> on a registered resource that has no allocation
  (\<open>allocation == nullptr\<close>) returns false and writes null to \<open>*data\<close>, in debug and
  release builds alike, and makes no native call.
\<close>

lemma map_resource_without_allocation:
  assumes "resources d resource = Some res_data" "rd_allocation res_data = 0" "resource \<noteq> 0"
  shows "map_resource resource subresource data_in mapped d = Inr (False, 0, d)"
  using assms by (simp add: map_resource_def lookup_resource_def)

text \<open>
  On a resource that has an allocation the answer of \<open>vmaMapMemory\<close> is returned, and
  when that call fails nothing is written to \<open>*data\<close>.
\<close>

lemma map_resource_mapping_fails:
  assumes "resources d resource = Some res_data" "rd_allocation res_data \<noteq> 0" "resource \<noteq> 0"
    and "\<not> debug_build d"
  shows "map_resource resource subresource data_in None d =
           Inr (False, data_in, emit (Ev_map_memory (rd_allocation res_data) False) d)"
  using assms by (simp add: map_resource_def lookup_resource_def)

text \<open>
  C9. \<open>map_resource\<close> on a device-local-only resource should return false with
  \<open>*data\<close> set to null. It returns false but leaves \<open>*data\<close> as it was: the texture
  \<open>0x10\<close> created with \<open>memory_heap::gpu_only\<close> on a release-build device has the
  allocation \<open>0x20\<close>, so \<open>map_resource\<close> calls \<open>vmaMapMemory\<close>, and when that fails
  (the memory is not host-visible) \<open>*data\<close> still holds the \<open>0xDEAD\<close> it held before
  the call. Only the branch for a resource without allocation writes null.
\<close>

theorem map_resource_gpu_only_leaves_data:
  "create_resource vk_conv0 gpu_texture_desc None 0 (Some (0x10, 0x20)) upload_fails
     vk_device_release = Inr (True, 0x10, vk_device5) \<and>
   map_resource 0x10 0 0xDEAD None vk_device5 =
     Inr (False, 0xDEAD,
          vk_device5\<lparr>vk_trace := [Ev_native_create Image 0x10, Ev_register 0x10,
                                  Ev_map_memory 0x20 False]\<rparr>)"
  by (simp add: create_resource_def map_resource_def lookup_resource_def register_image_def
        emplace_def emit_def vk_device_release_def vk_device0_def vk_device5_def vk_conv0_def
        gpu_texture_desc_def texture_desc0_def texture_data0_def Let_def)

section \<open>Vulkan: attachment queries\<close>

lemma matching_views_Cons:
  "matching_views (a # as) (v # vs) ty =
     (if format_flags a AND ty \<noteq> 0 then v # matching_views as vs ty else matching_views as vs ty)"
  by (simp add: matching_views_def)

lemma matching_views_Nil [simp]: "matching_views [] vs ty = []"
  by (simp add: matching_views_def)

lemma set_matching_views: "set (matching_views as vs ty) \<subseteq> set vs"
  by (auto simp: matching_views_def dest: set_zip_rightD)

lemma get_attachment_loop_spec:
  "i + length as = length vs \<Longrightarrow>
   get_attachment_loop as vs ty i index =
     (if index < length (matching_views as (drop i vs) ty)
      then Inr (True, matching_views as (drop i vs) ty ! index)
      else Inr (False, 0))"
proof (induction as arbitrary: i index)
  case Nil
  then show ?case by simp
next
  case (Cons a as)
  then have lt: "i < length vs" and nxt: "Suc i + length as = length vs" by simp_all
  have d: "drop i vs = vs ! i # drop (Suc i) vs"
    using lt by (simp add: Cons_nth_drop_Suc)
  show ?case
    using Cons.IH [OF nxt] lt
    by (cases index) (simp_all add: d matching_views_Cons)
qed

lemma get_attachment_count_loop_spec:
  "length vs = length as \<Longrightarrow>
   get_attachment_count_loop as ty count = count + length (matching_views as vs ty)"
proof (induction as arbitrary: vs count)
  case Nil
  then show ?case by simp
next
  case (Cons a as)
  then obtain v vs' where vs: "vs = v # vs'" "length vs' = length as"
    by (cases vs) auto
  show ?case
    using Cons.IH [OF vs(2)] by (simp add: vs(1) matching_views_Cons)
qed

lemma length_matching_views_le:
  "length (matching_views as vs ty) \<le> length as"
proof -
  have "length (matching_views as vs ty) \<le> length (zip as vs)"
    unfolding matching_views_def by (simp del: length_zip)
  then show ?thesis by simp
qed

text \<open>
  C5. For a pass handle the registry knows (its render pass and framebuffer are
  registered with equally many attachments, all views non-null) and every attachment
  type \<open>ty\<close>: \<open>get_attachment_count\<close> returns the number \<open>N\<close> of attachments that
  match \<open>ty\<close>; for every \<open>i < N\<close>, \<open>get_attachment\<close> returns true with the \<open>i\<close>-th
  matching view in declaration order, which is not null; for \<open>i = N\<close> it returns
  false with the null view.
\<close>

theorem get_attachment_counts_matching:
  assumes pi: "pass_impls d pass = Some pass_impl"
    and fb: "framebuffer_list d (rpi_fbo pass_impl) = Some info"
    and rp: "render_pass_list d (rpi_render_pass pass_impl) = Some pass_info"
    and len: "length (fb_attachments info) = length (rp_attachments pass_info)"
    and nz: "0 \<notin> set (fb_attachments info)"
    and pass: "pass \<noteq> 0"
  shows "get_attachment_count d pass ty =
           Inr (length (matching_views (rp_attachments pass_info) (fb_attachments info) ty)) \<and>
         (\<forall>i < length (matching_views (rp_attachments pass_info) (fb_attachments info) ty).
            get_attachment d pass ty i =
              Inr (True, matching_views (rp_attachments pass_info) (fb_attachments info) ty ! i) \<and>
            matching_views (rp_attachments pass_info) (fb_attachments info) ty ! i \<noteq> 0) \<and>
         get_attachment d pass ty
           (length (matching_views (rp_attachments pass_info) (fb_attachments info) ty)) =
           Inr (False, 0)"
proof -
  let ?m = "matching_views (rp_attachments pass_info) (fb_attachments info) ty"
  have le: "length ?m \<le> length (rp_attachments pass_info)"
    by (rule length_matching_views_le)
  have count: "get_attachment_count d pass ty = Inr (length ?m)"
    using pi rp pass get_attachment_count_loop_spec [OF len, of ty 0]
    by (simp add: get_attachment_count_def)
  have loop: "get_attachment_loop (rp_attachments pass_info) (fb_attachments info) ty 0 index =
                (if index < length ?m then Inr (True, ?m ! index) else Inr (False, 0))" for index
    using get_attachment_loop_spec [of 0 "rp_attachments pass_info" "fb_attachments info" ty index] len
    by simp
  have get: "index \<le> length ?m \<Longrightarrow> get_attachment d pass ty index =
               (if index < length ?m then Inr (True, ?m ! index) else Inr (False, 0))" for index
    using pi fb rp pass le loop [of index] by (simp add: get_attachment_def)
  have nonzero: "?m ! i \<noteq> 0" if "i < length ?m" for i
  proof -
    have "?m ! i \<in> set (fb_attachments info)"
      using that set_matching_views nth_mem by blast
    then show ?thesis using nz by metis
  qed
  show ?thesis
    using count get nonzero by simp
qed


text \<open>
  Every pass made by \<open>create_render_pass\<close> from new native handles is such a pass.
\<close>

lemma add_attachment_appends:
  "add_attachment d view format layout aty pb = Inr pb' \<Longrightarrow>
     fb_attachments (pb_fbo_data pb') = fb_attachments (pb_fbo_data pb) @ [view] \<and>
     length (rp_attachments (pb_pass_data pb')) = Suc (length (rp_attachments (pb_pass_data pb)))"
  by (auto simp: add_attachment_def split: sum.splits)

lemma add_attachment_ok:
  "add_attachment d view format layout aty pb = Inr pb' \<Longrightarrow> view \<noteq> 0 \<Longrightarrow> builder_ok pb \<Longrightarrow>
     builder_ok pb'"
  by (drule add_attachment_appends) (simp add: builder_ok_def)

lemma color_attachments_ok:
  "color_attachments cv d desc i n pb = Inr pb' \<Longrightarrow> builder_ok pb \<Longrightarrow> builder_ok pb'"
proof (induction n arbitrary: i pb)
  case 0
  then show ?case by simp
next
  case (Suc n)
  show ?case
  proof (cases "at0 (render_targets desc) i \<noteq> 0")
    case True
    with Suc.prems(1) obtain pb1 where
      a: "add_attachment d (at0 (render_targets desc) i)
            (convert_format cv (at0 (render_targets_format desc) i))
            VK_IMAGE_LAYOUT_COLOR_ATTACHMENT_OPTIMAL VK_IMAGE_ASPECT_COLOR_BIT pb = Inr pb1"
      and r: "color_attachments cv d desc (Suc i) n pb1 = Inr pb'"
      by (auto split: sum.splits)
    from add_attachment_ok [OF a True Suc.prems(2)] have "builder_ok pb1" .
    from Suc.IH [OF r this] show ?thesis .
  next
    case False
    with Suc.prems show ?thesis by simp
  qed
qed

lemma collect_attachments_ok:
  "collect_attachments cv d desc = Inr pb \<Longrightarrow> builder_ok pb"
proof -
  assume c: "collect_attachments cv d desc = Inr pb"
  have e: "builder_ok empty_pass_builder"
    by (simp add: builder_ok_def empty_pass_builder_def)
  from c obtain pb1 where
    c1: "color_attachments cv d desc 0 8 empty_pass_builder = Inr pb1"
    by (auto simp: collect_attachments_def split: sum.splits)
  have ok1: "builder_ok pb1" by (rule color_attachments_ok [OF c1 e])
  show ?thesis
  proof (cases "depth_stencil desc \<noteq> 0")
    case True
    with c c1 show ?thesis
      by (auto simp: collect_attachments_def intro: add_attachment_ok [OF _ True ok1])
  next
    case False
    with c c1 ok1 show ?thesis by (simp add: collect_attachments_def)
  qed
qed

lemma create_render_pass_registers:
  assumes "create_render_pass cv desc pass_created fbo_created p d = Inr (True, pass, d')"
    and "pass_created = Some render_pass" "render_pass_list d render_pass = None"
    and "fbo_created = Some fbo" "framebuffer_list d fbo = None"
  shows "pass = p \<and> pass_registered d' pass"
proof -
  from assms(1) obtain pb where c: "collect_attachments cv d desc = Inr pb"
    by (auto simp: create_render_pass_def split: sum.splits)
  from collect_attachments_ok [OF c] have ok: "builder_ok pb" .
  show ?thesis
    using assms c ok
    by (auto simp: create_render_pass_def pass_registered_def builder_ok_def emplace_fresh Let_def)
qed

lemma create_render_pass_native_pass_fails:
  assumes "collect_attachments cv d desc = Inr pb"
  shows "create_render_pass cv desc None fbo_created p d =
           Inr (False, 0, d\<lparr>vk_trace := vk_trace d @ [Ev_native_create_failed Render_pass]\<rparr>)"
  using assms by (simp add: create_render_pass_def emit_def)

lemma create_render_pass_native_fbo_fails:
  assumes "collect_attachments cv d desc = Inr pb"
  shows "create_render_pass cv desc (Some render_pass) None p d =
           Inr (False, 0,
                d\<lparr>vk_trace := vk_trace d @
                    [Ev_native_create Render_pass render_pass,
                     Ev_native_create_failed Framebuffer,
                     Ev_native_destroy Render_pass render_pass]\<rparr>)"
  using assms by (simp add: create_render_pass_def emit_def Let_def)

lemma eight: "(8::nat) = Suc (Suc 6)"
  by simp

lemma vk_device3_lookups:
  "lookup_resource_view vk_device3 0x11 =
     Inr \<lparr>vd_object = 0x11, vd_info = Image_view_info 0x10 37, vd_owned = True\<rparr>"
  "lookup_resource_view vk_device3 0x13 =
     Inr \<lparr>vd_object = 0x13, vd_info = Image_view_info 0x12 129, vd_owned = True\<rparr>"
  "lookup_resource vk_device3 0x10 = Inr texture_data0"
  "lookup_resource vk_device3 0x12 = Inr depth_data0"
  by (simp_all add: lookup_resource_view_def lookup_resource_def vk_device3_def vk_device1_def
        vk_device0_def)

lemma aspect_flags_examples:
  "aspect_flags_from_format 37 = 1" "aspect_flags_from_format 129 = 6"
  by (simp_all add: aspect_flags_from_format_def VK_FORMAT_D16_UNORM_def VK_FORMAT_D32_SFLOAT_def
        VK_FORMAT_S8_UINT_def VK_FORMAT_D16_UNORM_S8_UINT_def VK_FORMAT_D32_SFLOAT_S8_UINT_def
        VK_IMAGE_ASPECT_COLOR_BIT_def VK_IMAGE_ASPECT_DEPTH_BIT_def VK_IMAGE_ASPECT_STENCIL_BIT_def)

lemma collect_attachments_example:
  "collect_attachments vk_conv0 vk_device3 pass_desc0 =
     Inr \<lparr>pb_width = 256, pb_height = 128, pb_num_layers = 1,
          pb_fbo_data = fbo_data0, pb_pass_data = pass_data0\<rparr>"
  unfolding collect_attachments_def eight color_attachments.simps
  by (simp add: add_attachment_def vk_device3_lookups view_image_def resource_image_info_def
        aspect_flags_examples at0_def empty_pass_builder_def vk_conv0_def pass_desc0_def
        pass_data0_def fbo_data0_def texture_data0_def depth_data0_def
        VK_IMAGE_ASPECT_COLOR_BIT_def
        VK_IMAGE_LAYOUT_COLOR_ATTACHMENT_OPTIMAL_def
        VK_IMAGE_LAYOUT_DEPTH_STENCIL_ATTACHMENT_OPTIMAL_def)

lemma create_render_pass_example:
  "create_render_pass vk_conv0 pass_desc0 (Some 0x40) (Some 0x41) 0x8000 vk_device3 =
     Inr (True, 0x8000, vk_device4)"
  unfolding create_render_pass_def collect_attachments_example
  by (simp add: emplace_def emit_def vk_device0_def vk_device1_def vk_device3_def vk_device4_def
        pass_impl0_def Let_def)

theorem get_attachment_counts_matching_witness:
  "pass_impls vk_device4 0x8000 = Some pass_impl0 \<and>
   framebuffer_list vk_device4 (rpi_fbo pass_impl0) = Some fbo_data0 \<and>
   render_pass_list vk_device4 (rpi_render_pass pass_impl0) = Some pass_data0 \<and>
   get_attachment_count vk_device4 0x8000 0x6 = Inr 1 \<and>
   get_attachment vk_device4 0x8000 0x6 0 = Inr (True, 0x13) \<and>
   get_attachment vk_device4 0x8000 0x6 1 = Inr (False, 0)"
proof -
  have pi: "pass_impls vk_device4 0x8000 = Some pass_impl0" by (simp add: vk_device4_def)
  have fb: "framebuffer_list vk_device4 (rpi_fbo pass_impl0) = Some fbo_data0"
    by (simp add: vk_device4_def pass_impl0_def)
  have rp: "render_pass_list vk_device4 (rpi_render_pass pass_impl0) = Some pass_data0"
    by (simp add: vk_device4_def pass_impl0_def)
  have len: "length (fb_attachments fbo_data0) = length (rp_attachments pass_data0)"
    by (simp add: fbo_data0_def pass_data0_def)
  have nz: "0 \<notin> set (fb_attachments fbo_data0)" by (simp add: fbo_data0_def)
  have pass: "(0x8000 :: handle) \<noteq> 0" by simp
  have m: "matching_views (rp_attachments pass_data0) (fb_attachments fbo_data0) 0x6 = [0x13]"
    by (simp add: matching_views_def fbo_data0_def pass_data0_def)
  show ?thesis
    using get_attachment_counts_matching [OF pi fb rp len nz pass, of "0x6"] pi fb rp
    by (simp add: m)
qed

section \<open>OpenGL: results on attachment queries\<close>

lemma null_view_handle [simp]: "make_resource_view_handle 0 0 0 = 0"
  by (simp add: make_resource_view_handle_def)

text \<open>
  C10. In the OpenGL backend \<open>get_attachment_count\<close> returns 1 for every attachment
  type other than color, for every pass handle, whatever the framebuffer holds; yet
  \<open>get_attachment\<close> for that type returns false on the default framebuffer when
  there is no default depth buffer, and on a framebuffer object that has no attachment
  at the attachment point of the type.
\<close>

theorem get_attachment_count_gl_ignores_framebuffer:
  assumes ty: "ty \<noteq> attachment_color" and pass: "pass \<noteq> 0"
  shows "get_attachment_count_gl g pass ty = Inr 1 \<and>
         (handle_object pass = 0 \<and> default_depth_format g = GL_NONE \<longrightarrow>
            get_attachment_gl g pass ty index = Inr (False, 0)) \<and>
         (handle_object pass \<noteq> 0 \<and> ty = attachment_depth \<and>
          fbo_attachment_object_type g (handle_object pass) GL_DEPTH_ATTACHMENT = GL_NONE \<longrightarrow>
            get_attachment_gl g pass ty index = Inr (False, 0)) \<and>
         (handle_object pass \<noteq> 0 \<and> ty = attachment_stencil \<and>
          fbo_attachment_object_type g (handle_object pass) GL_STENCIL_ATTACHMENT = GL_NONE \<longrightarrow>
            get_attachment_gl g pass ty index = Inr (False, 0)) \<and>
         (handle_object pass \<noteq> 0 \<and> ty = attachment_depth OR attachment_stencil \<and>
          fbo_attachment_object_type g (handle_object pass) GL_DEPTH_STENCIL_ATTACHMENT = GL_NONE \<longrightarrow>
            get_attachment_gl g pass ty index = Inr (False, 0))"
  using ty pass by (simp add: get_attachment_count_gl_def get_attachment_gl_def Let_def)

theorem get_attachment_count_gl_ignores_framebuffer_witness:
  "attachment_depth \<noteq> attachment_color \<and> (0x10000000007 :: handle) \<noteq> 0 \<and>
   handle_object 0x10000000007 = 7 \<and>
   fbo_attachment_object_type gl_device0 7 GL_DEPTH_ATTACHMENT = GL_NONE \<and>
   get_attachment_count_gl gl_device0 0x10000000007 attachment_depth = Inr 1 \<and>
   get_attachment_gl gl_device0 0x10000000007 attachment_depth 0 = Inr (False, 0)"
proof -
  have ty: "attachment_depth \<noteq> attachment_color" by simp
  have pass: "(0x10000000007 :: handle) \<noteq> 0" by simp
  have obj: "handle_object 0x10000000007 = 7" by (simp add: handle_object_def)
  have none: "fbo_attachment_object_type gl_device0 7 GL_DEPTH_ATTACHMENT = GL_NONE"
    by (simp add: gl_device0_def)
  show ?thesis
    using get_attachment_count_gl_ignores_framebuffer [OF ty pass, of gl_device0 0] obj none
    by simp
qed

section \<open>OpenGL: results on the create operations\<close>

text \<open>
  C2. Every \<open>create_*\<close> should, when it fails, return false with the zero handle
  written to \<open>*out\<close>. \<open>create_resource_view\<close> of the OpenGL device does not: for a
  view format the translator maps to \<open>GL_NONE\<close> it returns false and leaves \<open>*out\<close>
  as it found it. Here \<open>*out\<close> holds \<open>0xDEADBEEF\<close> before and after the call on the
  2D texture 5 (release build).
\<close>

theorem create_resource_view_gl_leaves_out_unwritten:
  "create_resource_view_gl gl_conv0 0xDE10000000005 view_desc0 0xDEADBEEF False 9 gl_device0 =
     Inr (False, 0xDEADBEEF, gl_device0)"
  by (simp add: create_resource_view_gl_def gl_conv0_def view_desc0_def gl_device0_def
        handle_target_def view_target_def Let_def)

lemma gl_simps [simp]:
  "gl_debug (gl c g) = gl_debug g"
  "set_layouts (gl c g) = set_layouts g"
  "descriptor_sets (gl c g) = descriptor_sets g"
  "query_pools (gl c g) = query_pools g"
  "gl_trace (gl c g) = gl_trace g @ [c]"
  by (simp_all add: gl_def)

text \<open>
  \<open>create_render_pass\<close> of the OpenGL device: when it returns false the handle is
  zero and the framebuffer object it generated has been deleted again.
\<close>

lemma attach_trace:
  "attach attachment view g = Some g' \<Longrightarrow> \<exists>c. gl_trace g' = gl_trace g @ [c]"
  by (auto simp: attach_def split: if_splits)

lemma attach_render_targets_trace:
  "attach_render_targets rts i n srgb g = Inr (count, srgb', g') \<Longrightarrow>
     \<exists>calls. gl_trace g' = gl_trace g @ calls"
proof (induction n arbitrary: i srgb g)
  case 0
  then show ?case by simp
next
  case (Suc n)
  show ?case
  proof (cases "at0 rts i \<noteq> 0")
    case True
    with Suc.prems obtain g1 where
      a: "attach (GL_COLOR_ATTACHMENT0 + of_nat i) (at0 rts i) g = Some g1"
      and r: "attach_render_targets rts (Suc i) n (srgb \<or> at0 rts i AND 0x200000000 \<noteq> 0) g1
                = Inr (count, srgb', g')"
      by (auto split: option.splits)
    from attach_trace [OF a] obtain c where "gl_trace g1 = gl_trace g @ [c]" by blast
    moreover from Suc.IH [OF r] obtain calls where "gl_trace g' = gl_trace g1 @ calls" by blast
    ultimately show ?thesis by simp
  next
    case False
    with Suc.prems show ?thesis by simp
  qed
qed

lemma attach_render_targets_default_trace:
  "attach_render_targets rts i n srgb g = Inl g' \<Longrightarrow>
     \<exists>calls. gl_trace g' = gl_trace g @ calls"
proof (induction n arbitrary: i srgb g)
  case 0
  then show ?case by simp
next
  case (Suc n)
  show ?case
  proof (cases "attach (GL_COLOR_ATTACHMENT0 + of_nat i) (at0 rts i) g")
    case None
    with Suc.prems show ?thesis by (simp split: if_splits)
  next
    case (Some g1)
    with Suc.prems have
      r: "attach_render_targets rts (Suc i) n (srgb \<or> at0 rts i AND 0x200000000 \<noteq> 0) g1 = Inl g'"
      by (simp split: if_splits)
    from attach_trace [OF Some] obtain c where "gl_trace g1 = gl_trace g @ [c]" by blast
    moreover from Suc.IH [OF r] obtain calls where "gl_trace g' = gl_trace g1 @ calls" by blast
    ultimately show ?thesis by simp
  qed
qed

lemma create_render_pass_gl_failure:
  assumes "create_render_pass_gl default_pass desc prev_fbo fbo_object status g = Inr (False, out, g')"
  shows "out = 0 \<and>
         (\<exists>calls. gl_trace g' =
            gl_trace g @ Gl_gen_framebuffers fbo_object # calls @ [Gl_delete_framebuffers fbo_object])"
  using assms
  by (auto simp: create_render_pass_gl_def abandon_framebuffer_def Let_def
           split: if_splits option.splits prod.splits sum.splits
           dest!: attach_render_targets_trace attach_render_targets_default_trace attach_trace)

text \<open>
  A render target that reaches the \<open>default\<close> label after another one was attached:
  the attachment made first stays in the record of calls, then the framebuffer object
  is unbound and deleted.
\<close>

lemma create_render_pass_gl_default_label:
  "create_render_pass_gl 0 \<lparr>render_targets = [0xDE10000000005, 0x10000000003],
                             render_targets_format = [], depth_stencil = 0,
                             depth_stencil_format = 0\<rparr> 0 7 GL_FRAMEBUFFER_COMPLETE gl_device0 =
     Inr (False, 0,
          gl_device0\<lparr>gl_trace :=
            [Gl_gen_framebuffers 7, Gl_bind_framebuffer 7, Gl_framebuffer_texture 0x8CE0 5,
             Gl_bind_framebuffer 0, Gl_delete_framebuffers 7]\<rparr>)"
  unfolding create_render_pass_gl_def eight attach_render_targets.simps
  by (simp add: abandon_framebuffer_def attach_def attachable_texture_def handle_target_def
        handle_object_def at0_def gl_def gl_device0_def Let_def)

section \<open>Query pools\<close>

lemma init_queries_trace:
  "gl_trace (init_queries cv ty qs g) = gl_trace g @ concat (map (query_init_calls cv ty) qs) \<and>
   query_pools (init_queries cv ty qs g) = query_pools g"
  by (induction qs arbitrary: g) (simp_all add: query_init_calls_def)

lemma create_query_pool_gl_initializes:
  assumes "ty \<noteq> Qt_pipeline_statistics"
  shows "\<exists>g'. create_query_pool_gl cv ty n names p g = (True, p, g') \<and>
           query_pools g' p = Some (map names [0..<unat n]) \<and>
           gl_trace g' = gl_trace g @ Gl_gen_queries (unat n) #
             concat (map (query_init_calls cv ty) (map names [0..<unat n]))"
  using assms by (simp add: create_query_pool_gl_def init_queries_trace Let_def)

lemma create_query_pool_resets:
  assumes "first_immediate (queues d) = Some (queue, cmd)"
  shows "\<exists>d'. create_query_pool ty count (Some pool) d = (True, pool, d') \<and>
           vk_trace d' = vk_trace d @
             [Ev_native_create Query_pool pool, Ev_cmd_reset_query_pool cmd pool 0 count,
              Ev_has_commands cmd, Ev_flush_immediate (cq_orig queue)]"
  using assms by (simp add: create_query_pool_def emit_def Let_def)

text \<open>
  Where the initialisation happens: \<open>create_query_pool\<close> of the OpenGL device issues,
  for each of the requested queries in order, one timestamp (timestamp pools) or one
  begin/end pair (other pools) before it returns; \<open>create_query_pool\<close> of the Vulkan
  device resets the whole pool on the first queue that owns an immediate command list
  and flushes that list, when there is such a queue.
\<close>

lemma create_query_pool_initializes:
  "(ty \<noteq> Qt_pipeline_statistics \<longrightarrow>
      (\<exists>g'. create_query_pool_gl cv ty n names p g = (True, p, g') \<and>
             query_pools g' p = Some (map names [0..<unat n]) \<and>
             gl_trace g' = gl_trace g @ Gl_gen_queries (unat n) #
               concat (map (query_init_calls cv ty) (map names [0..<unat n])))) \<and>
   (first_immediate (queues d) = Some (queue, cmd) \<longrightarrow>
      (\<exists>d'. create_query_pool vty count (Some pool) d = (True, pool, d') \<and>
             vk_trace d' = vk_trace d @
               [Ev_native_create Query_pool pool, Ev_cmd_reset_query_pool cmd pool 0 count,
                Ev_has_commands cmd, Ev_flush_immediate (cq_orig queue)]))"
  using create_query_pool_gl_initializes [of ty cv n names p g]
        create_query_pool_resets [of d queue cmd vty count pool]
  by blast

lemma create_query_pool_initializes_example:
  "Qt_other \<noteq> Qt_pipeline_statistics \<and>
   first_immediate (queues vk_device0) = Some (\<lparr>cq_orig = 0x700, cq_immediate = Some 0x701\<rparr>, 0x701) \<and>
   (\<exists>g'. create_query_pool_gl gl_conv0 Qt_other 2 query_names 0x9300 gl_device0 = (True, 0x9300, g') \<and>
          query_pools g' 0x9300 = Some [1, 2] \<and>
          gl_trace g' = [Gl_gen_queries 2, Gl_begin_query 0x8914 1, Gl_end_query 0x8914,
                         Gl_begin_query 0x8914 2, Gl_end_query 0x8914]) \<and>
   (\<exists>d'. create_query_pool Qt_timestamp 4 (Some 0x30) vk_device0 = (True, 0x30, d') \<and>
          vk_trace d' = [Ev_native_create Query_pool 0x30, Ev_cmd_reset_query_pool 0x701 0x30 0 4,
                         Ev_has_commands 0x701, Ev_flush_immediate 0x700])"
proof -
  have ty: "Qt_other \<noteq> Qt_pipeline_statistics" by simp
  have q: "first_immediate (queues vk_device0) =
             Some (\<lparr>cq_orig = 0x700, cq_immediate = Some 0x701\<rparr>, 0x701)"
    by (simp add: vk_device0_def)
  have names: "map query_names [0..<2] = [1, 2]"
    by (simp add: query_names_def upt_rec)
  have calls: "query_init_calls gl_conv0 Qt_other q =
                 [Gl_begin_query 0x8914 q, Gl_end_query 0x8914]" for q
    by (simp add: query_init_calls_def gl_conv0_def)
  have t0: "gl_trace gl_device0 = []" "vk_trace vk_device0 = []"
    by (simp_all add: gl_device0_def vk_device0_def)
  show ?thesis
    using create_query_pool_initializes
            [where ty = Qt_other and cv = gl_conv0 and n = 2 and names = query_names
               and p = "0x9300" and g = gl_device0 and d = vk_device0
               and queue = "\<lparr>cq_orig = 0x700, cq_immediate = Some 0x701\<rparr>"
               and cmd = "0x701" and vty = Qt_timestamp and count = 4 and pool = "0x30"]
          ty q
    by (simp add: names calls t0)
qed

text \<open>
  When no queue of the Vulkan device owns an immediate command list, the loop finds
  nothing to record the reset on, and the pool is returned as the driver created it.
\<close>

lemma create_query_pool_no_immediate_list:
  assumes "first_immediate (queues d) = None"
  shows "create_query_pool ty count (Some pool) d =
           (True, pool, emit (Ev_native_create Query_pool pool) d)"
  using assms by (simp add: create_query_pool_def Let_def)

text \<open>
  C8. A successful \<open>create_query_pool\<close> should hand out a pool whose queries have all
  been initialized; the Vulkan code says so itself (\<open>Reset all queries for initial
  use\<close>). On a Vulkan device none of whose queues owns an immediate command list it
  does not: \<open>create_query_pool\<close> for four timestamp queries returns true with the pool
  \<open>0x30\<close>, and the only effect recorded is the creation of the pool. No
  \<open>vkCmdResetQueryPool\<close> was issued.
\<close>

theorem create_query_pool_without_immediate_list:
  "first_immediate (queues vk_device_headless) = None \<and>
   create_query_pool Qt_timestamp 4 (Some 0x30) vk_device_headless =
     (True, 0x30, vk_device_headless\<lparr>vk_trace := [Ev_native_create Query_pool 0x30]\<rparr>)"
  by (simp add: create_query_pool_def emit_def vk_device_headless_def vk_device0_def Let_def)

section \<open>OpenGL: results on descriptor sets\<close>

lemma replicate_8: "replicate 8 x = [x, x, x, x, x, x, x, x]"
  by (simp add: numeral_eq_Suc)

lemma allocate_one_set:
  assumes "set_layouts g layout = Some r"
  shows "allocate_sets layout i (Suc 0) addrs g =
           Inr ([addrs i],
                g\<lparr>descriptor_sets := (descriptor_sets g)(addrs i \<mapsto>
                     \<lparr>set_type = range_type r,
                      descriptors = replicate
                        (unat (range_count r *
                               (if range_type r = Sampler_with_resource_view then 2 else 1))) 0\<rparr>)\<rparr>)"
  using assms by (simp add: Let_def)

text \<open>
  C7. On any device: create a layout with one sampler-with-resource-view range of
  count 4, allocate one set from it, write binding 2 with a sampler \<open>s\<close> and a view
  \<open>v\<close>. The set then holds \<open>s\<close> and \<open>v\<close> at binding 2 and zero at bindings 0, 1 and
  3. The hypotheses are the two assertions of the write (debug builds).
\<close>

theorem write_binding_2_of_4:
  assumes s: "s \<noteq> 0" and v: "v \<noteq> 0"
  shows "\<exists>g1 g2 g3 set_impl.
           create_descriptor_set_layout_gl [sampler_view_range] layout g = (True, layout, g1) \<and>
           create_descriptor_sets_gl layout 1 addrs g1 = Inr (True, [addrs 0], g2) \<and>
           update_descriptor_sets
             [\<lparr>w_set = addrs 0, w_binding = 2, w_array_offset = 0,
               w_type = Sampler_with_resource_view, w_sampler = s, w_view = v,
               w_resource = 0, w_offset = 0\<rparr>] [] g2 = Inr g3 \<and>
           descriptor_sets g3 (addrs 0) = Some set_impl \<and>
           descriptors set_impl = [0, 0, 0, 0, s, v, 0, 0] \<and>
           binding_value Sampler_with_resource_view set_impl 2 = [s, v] \<and>
           binding_value Sampler_with_resource_view set_impl 0 = [0, 0] \<and>
           binding_value Sampler_with_resource_view set_impl 1 = [0, 0] \<and>
           binding_value Sampler_with_resource_view set_impl 3 = [0, 0]"
proof -
  let ?g1 = "g\<lparr>set_layouts := (set_layouts g)(layout \<mapsto> sampler_view_range)\<rparr>"
  let ?set0 = "\<lparr>set_type = Sampler_with_resource_view,
                 descriptors = [0, 0, 0, 0, 0, 0, 0, 0 :: handle]\<rparr>"
  let ?g2 = "?g1\<lparr>descriptor_sets := (descriptor_sets ?g1)(addrs 0 \<mapsto> ?set0)\<rparr>"
  let ?set1 = "\<lparr>set_type = Sampler_with_resource_view,
                 descriptors = [0, 0, 0, 0, s, v, 0, 0]\<rparr>"
  let ?g3 = "?g2\<lparr>descriptor_sets := (descriptor_sets ?g2)(addrs 0 \<mapsto> ?set1)\<rparr>"
  have l: "create_descriptor_set_layout_gl [sampler_view_range] layout g = (True, layout, ?g1)"
    by (simp add: create_descriptor_set_layout_gl_def)
  have lay: "set_layouts ?g1 layout = Some sampler_view_range" by simp
  have a: "create_descriptor_sets_gl layout 1 addrs ?g1 = Inr (True, [addrs 0], ?g2)"
    unfolding create_descriptor_sets_gl_def
    by (simp add: allocate_one_set [OF lay] sampler_view_range_def replicate_8)
  have i4: "unat (2 * 2 + 0 :: 32 word) = 4" and i5: "unat (2 * 2 + 1 :: 32 word) = 5"
    by simp_all
  have update_4: "[0, 0, 0, 0, 0, 0, 0, 0 :: handle][4 := s] = [0, 0, 0, 0, s, 0, 0, 0]"
    by (simp add: numeral_eq_Suc)
  have update_5: "[0, 0, 0, 0, s, 0, 0, 0 :: handle][5 := v] = [0, 0, 0, 0, s, v, 0, 0]"
    by (simp add: numeral_eq_Suc)
  have u: "update_descriptor_sets
             [\<lparr>w_set = addrs 0, w_binding = 2, w_array_offset = 0,
               w_type = Sampler_with_resource_view, w_sampler = s, w_view = v,
               w_resource = 0, w_offset = 0\<rparr>] [] ?g2 = Inr ?g3"
    using s v
    by (simp add: update_descriptor_sets_def write_descriptor_def store_descriptor_def
          update_4 update_5)
  have r: "descriptor_sets ?g3 (addrs 0) = Some ?set1" by simp
  have b: "binding_value Sampler_with_resource_view ?set1 2 = [s, v]"
          "binding_value Sampler_with_resource_view ?set1 0 = [0, 0]"
          "binding_value Sampler_with_resource_view ?set1 1 = [0, 0]"
          "binding_value Sampler_with_resource_view ?set1 3 = [0, 0]"
    by (simp_all add: binding_value_def)
  show ?thesis
    using l a u r b by (intro exI [of _ ?g1] exI [of _ ?g2] exI [of _ ?g3] exI [of _ ?set1]) simp
qed


theorem write_binding_2_of_4_witness:
  "(0xA1 :: handle) \<noteq> 0 \<and> (0xB2 :: handle) \<noteq> 0 \<and>
   (\<exists>g1 g2 g3 set_impl.
      create_descriptor_set_layout_gl [sampler_view_range] 0x9000 gl_device0 = (True, 0x9000, g1) \<and>
      create_descriptor_sets_gl 0x9000 1 set_addrs g1 = Inr (True, [0x9100], g2) \<and>
      update_descriptor_sets
        [\<lparr>w_set = 0x9100, w_binding = 2, w_array_offset = 0,
          w_type = Sampler_with_resource_view, w_sampler = 0xA1, w_view = 0xB2,
          w_resource = 0, w_offset = 0\<rparr>] [] g2 = Inr g3 \<and>
      descriptor_sets g3 0x9100 = Some set_impl \<and>
      descriptors set_impl = [0, 0, 0, 0, 0xA1, 0xB2, 0, 0])"
proof -
  have s: "(0xA1 :: handle) \<noteq> 0" and v: "(0xB2 :: handle) \<noteq> 0" by simp_all
  have a0: "set_addrs 0 = 0x9100" by (simp add: set_addrs_def)
  show ?thesis
    using write_binding_2_of_4 [OF s v, where layout = "0x9000" and g = gl_device0 and addrs = set_addrs] s v
    unfolding a0 by blast
qed

text \<open>Index arithmetic of the copy loops: no wrap-around inside the vectors.\<close>

lemma unat_binding_plus:
  "unat bnd + k < 2 ^ 32 \<Longrightarrow> unat (bnd + of_nat k :: 32 word) = unat bnd + k"
proof -
  assume a: "unat bnd + k < 2 ^ 32"
  then have k: "unat (of_nat k :: 32 word) = k"
    by (simp add: unat_of_nat)
  have "unat bnd + unat (of_nat k :: 32 word) < 2 ^ LENGTH(32)"
    using a k by simp
  then have "unat (bnd + of_nat k) = unat bnd + unat (of_nat k :: 32 word)"
    by (simp only: unat_add_lem)
  then show ?thesis using k by simp
qed

lemma unat_pair_index:
  assumes "2 * (unat bnd + k) + 1 < 2 ^ 32"
  shows "unat ((bnd + of_nat k) * 2 + 0 :: 32 word) = 2 * (unat bnd + k)"
    and "unat ((bnd + of_nat k) * 2 + 1 :: 32 word) = 2 * (unat bnd + k) + 1"
proof -
  have s: "unat (bnd + of_nat k :: 32 word) = unat bnd + k"
    using assms by (intro unat_binding_plus) simp
  have "unat (bnd + of_nat k) * unat (2 :: 32 word) < 2 ^ LENGTH(32)"
    using assms s by simp
  then have m: "unat ((bnd + of_nat k) * 2 :: 32 word) = unat (bnd + of_nat k) * unat (2 :: 32 word)"
    by (simp only: unat_mult_lem)
  then have m': "unat ((bnd + of_nat k) * 2 :: 32 word) = 2 * (unat bnd + k)"
    using s by simp
  show "unat ((bnd + of_nat k) * 2 + 0 :: 32 word) = 2 * (unat bnd + k)"
    using m' by simp
  have "unat ((bnd + of_nat k) * 2 :: 32 word) + unat (1 :: 32 word) < 2 ^ LENGTH(32)"
    using assms m' by simp
  then have "unat ((bnd + of_nat k) * 2 + 1 :: 32 word) =
               unat ((bnd + of_nat k) * 2 :: 32 word) + unat (1 :: 32 word)"
    by (simp only: unat_add_lem)
  then show "unat ((bnd + of_nat k) * 2 + 1 :: 32 word) = 2 * (unat bnd + k) + 1"
    using m' by simp
qed

text \<open>One assignment \<open>dst[i] = src[i]\<close>.\<close>

lemma copy_one_index:
  assumes src: "descriptor_sets g src = Some a" and dst: "descriptor_sets g dst = Some b"
    and ia: "unat i < length (descriptors a)" and ib: "unat i < length (descriptors b)"
  shows "load_descriptor g src i = Inr (descriptors a ! unat i)"
    and "\<exists>g1. store_descriptor dst i (descriptors a ! unat i) g = Inr g1 \<and>
           descriptor_sets g1 src = Some a \<and>
           descriptor_sets g1 dst =
             Some (b\<lparr>descriptors := (descriptors b)[unat i := descriptors a ! unat i]\<rparr>)"
proof -
  show "load_descriptor g src i = Inr (descriptors a ! unat i)"
    using src ia by (simp add: load_descriptor_def)
  show "\<exists>g1. store_descriptor dst i (descriptors a ! unat i) g = Inr g1 \<and>
           descriptor_sets g1 src = Some a \<and>
           descriptor_sets g1 dst =
             Some (b\<lparr>descriptors := (descriptors b)[unat i := descriptors a ! unat i]\<rparr>)"
  proof (cases "src = dst")
    case True
    then have "a = b" using src dst by simp
    then show ?thesis using src dst ib True by (simp add: store_descriptor_def)
  next
    case False
    then show ?thesis using src dst ib by (simp add: store_descriptor_def)
  qed
qed

lemma copy_single_same_binding:
  assumes "descriptor_sets g src = Some a" "descriptor_sets g dst = Some b"
    and "unat bnd + k + n \<le> length (descriptors a)"
    and "unat bnd + k + n \<le> length (descriptors b)"
    and "unat bnd + k + n \<le> 2 ^ 32"
  shows "\<exists>g' b'. copy_single src dst bnd bnd k n g = Inr g' \<and>
           descriptor_sets g' dst = Some b' \<and>
           length (descriptors b') = length (descriptors b) \<and>
           (\<forall>j < length (descriptors b). descriptors b' ! j =
              (if unat bnd + k \<le> j \<and> j < unat bnd + k + n
               then descriptors a ! j else descriptors b ! j))"
  using assms
proof (induction n arbitrary: k g b)
  case 0
  then show ?case by auto
next
  case (Suc n)
  let ?i = "bnd + of_nat k :: 32 word"
  have i: "unat ?i = unat bnd + k"
    using Suc.prems(5) by (intro unat_binding_plus) simp
  have ia: "unat ?i < length (descriptors a)" and ib: "unat ?i < length (descriptors b)"
    using Suc.prems(3,4) i by simp_all
  let ?b1 = "b\<lparr>descriptors := (descriptors b)[unat ?i := descriptors a ! unat ?i]\<rparr>"
  from copy_one_index [OF Suc.prems(1,2) ia ib]
  obtain g1 where ld: "load_descriptor g src ?i = Inr (descriptors a ! unat ?i)"
    and st: "store_descriptor dst ?i (descriptors a ! unat ?i) g = Inr g1"
    and s1: "descriptor_sets g1 src = Some a"
    and d1: "descriptor_sets g1 dst = Some ?b1"
    by blast
  have la: "unat bnd + Suc k + n \<le> length (descriptors a)"
    and lb: "unat bnd + Suc k + n \<le> length (descriptors ?b1)"
    and lw: "unat bnd + Suc k + n \<le> 2 ^ 32"
    using Suc.prems(3,4,5) by simp_all
  from Suc.IH [OF s1 d1 la lb lw]
  obtain g' b' where r: "copy_single src dst bnd bnd (Suc k) n g1 = Inr g'"
    "descriptor_sets g' dst = Some b'"
    "length (descriptors b') = length (descriptors ?b1)"
    "\<forall>j < length (descriptors ?b1). descriptors b' ! j =
        (if unat bnd + Suc k \<le> j \<and> j < unat bnd + Suc k + n
         then descriptors a ! j else descriptors ?b1 ! j)"
    by blast
  have c: "copy_single src dst bnd bnd k (Suc n) g = Inr g'"
    using ld st r(1) by simp
  have v: "descriptors b' ! j =
             (if unat bnd + k \<le> j \<and> j < unat bnd + k + Suc n
              then descriptors a ! j else descriptors b ! j)"
    if "j < length (descriptors b)" for j
    using r(4) that i ib by (cases "j = unat bnd + k") (auto simp: nth_list_update)
  show ?case
    using c r(2,3) v by (intro exI [of _ g'] exI [of _ b']) simp
qed

lemma copy_pairs_same_binding:
  assumes "descriptor_sets g src = Some a" "descriptor_sets g dst = Some b"
    and "2 * (unat bnd + k + n) \<le> length (descriptors a)"
    and "2 * (unat bnd + k + n) \<le> length (descriptors b)"
    and "2 * (unat bnd + k + n) \<le> 2 ^ 32"
  shows "\<exists>g' b'. copy_pairs src dst bnd bnd k n g = Inr g' \<and>
           descriptor_sets g' dst = Some b' \<and>
           length (descriptors b') = length (descriptors b) \<and>
           (\<forall>j < length (descriptors b). descriptors b' ! j =
              (if 2 * (unat bnd + k) \<le> j \<and> j < 2 * (unat bnd + k + n)
               then descriptors a ! j else descriptors b ! j))"
  using assms
proof (induction n arbitrary: k g b)
  case 0
  then show ?case by auto
next
  case (Suc n)
  let ?i0 = "(bnd + of_nat k) * 2 + 0 :: 32 word"
  let ?i1 = "(bnd + of_nat k) * 2 + 1 :: 32 word"
  have bound: "2 * (unat bnd + k) + 1 < 2 ^ 32"
    using Suc.prems(5) by simp
  have i0: "unat ?i0 = 2 * (unat bnd + k)" and i1: "unat ?i1 = 2 * (unat bnd + k) + 1"
    using unat_pair_index [OF bound] by simp_all
  have ia0: "unat ?i0 < length (descriptors a)" and ib0: "unat ?i0 < length (descriptors b)"
    using Suc.prems(3,4) i0 by simp_all
  let ?b1 = "b\<lparr>descriptors := (descriptors b)[unat ?i0 := descriptors a ! unat ?i0]\<rparr>"
  from copy_one_index [OF Suc.prems(1,2) ia0 ib0]
  obtain g1 where ld0: "load_descriptor g src ?i0 = Inr (descriptors a ! unat ?i0)"
    and st0: "store_descriptor dst ?i0 (descriptors a ! unat ?i0) g = Inr g1"
    and s1: "descriptor_sets g1 src = Some a"
    and d1: "descriptor_sets g1 dst = Some ?b1"
    by blast
  have ia1: "unat ?i1 < length (descriptors a)" and ib1: "unat ?i1 < length (descriptors ?b1)"
    using Suc.prems(3,4) i1 by simp_all
  let ?b2 = "?b1\<lparr>descriptors := (descriptors ?b1)[unat ?i1 := descriptors a ! unat ?i1]\<rparr>"
  from copy_one_index [OF s1 d1 ia1 ib1]
  obtain g2 where ld1: "load_descriptor g1 src ?i1 = Inr (descriptors a ! unat ?i1)"
    and st1: "store_descriptor dst ?i1 (descriptors a ! unat ?i1) g1 = Inr g2"
    and s2: "descriptor_sets g2 src = Some a"
    and d2: "descriptor_sets g2 dst = Some ?b2"
    by blast
  have la: "2 * (unat bnd + Suc k + n) \<le> length (descriptors a)"
    and lb: "2 * (unat bnd + Suc k + n) \<le> length (descriptors ?b2)"
    and lw: "2 * (unat bnd + Suc k + n) \<le> 2 ^ 32"
    using Suc.prems(3,4,5) by simp_all
  from Suc.IH [OF s2 d2 la lb lw]
  obtain g' b' where r: "copy_pairs src dst bnd bnd (Suc k) n g2 = Inr g'"
    "descriptor_sets g' dst = Some b'"
    "length (descriptors b') = length (descriptors ?b2)"
    "\<forall>j < length (descriptors ?b2). descriptors b' ! j =
        (if 2 * (unat bnd + Suc k) \<le> j \<and> j < 2 * (unat bnd + Suc k + n)
         then descriptors a ! j else descriptors ?b2 ! j)"
    by blast
  have c: "copy_pairs src dst bnd bnd k (Suc n) g = Inr g'"
    using ld0 st0 ld1 st1 r(1) by (simp add: Let_def)
  have v: "descriptors b' ! j =
             (if 2 * (unat bnd + k) \<le> j \<and> j < 2 * (unat bnd + k + Suc n)
              then descriptors a ! j else descriptors b ! j)"
    if "j < length (descriptors b)" for j
  proof -
    have "j = 2 * (unat bnd + k) \<or> j = 2 * (unat bnd + k) + 1 \<or>
          j < 2 * (unat bnd + k) \<or> 2 * (unat bnd + Suc k) \<le> j"
      by arith
    then show ?thesis
      using r(4) that i0 i1 ib0 by (auto simp: nth_list_update)
  qed
  show ?case
    using c r(2,3) v by (intro exI [of _ g'] exI [of _ b']) simp
qed


text \<open>
  C6. After \<open>update_descriptor_sets\<close> with a single copy of count \<open>k\<close> from set
  \<open>s1\<close> binding \<open>bnd\<close> to set \<open>s2\<close> binding \<open>bnd\<close>, each binding in
  \<open>[bnd, bnd + k)\<close> of \<open>s2\<close> holds what that binding of \<open>s1\<close> held before: one
  handle, or the sampler and the view for a sampler-with-resource-view copy. The two
  sets may be the same object. The bindings must lie inside both vectors, and inside
  the 32 bits in which the source computes the index. Bindings are read the way the
  copy's descriptor type lays them out, which is the only type the code consults.
\<close>

theorem copy_descriptors_same_binding:
  assumes src: "descriptor_sets g s1 = Some a" and dst: "descriptor_sets g s2 = Some b"
    and ty: "ty \<noteq> Descriptor_other"
    and la: "slots ty * (unat bnd + unat k) \<le> length (descriptors a)"
    and lb: "slots ty * (unat bnd + unat k) \<le> length (descriptors b)"
    and lw: "slots ty * (unat bnd + unat k) \<le> 2 ^ 32"
  shows "\<exists>g' b'.
           update_descriptor_sets []
             [\<lparr>c_src_set = s1, c_src_binding = bnd, c_src_array_offset = src_offset,
               c_dst_set = s2, c_dst_binding = bnd, c_dst_array_offset = dst_offset,
               c_count = k, c_type = ty\<rparr>] g = Inr g' \<and>
           descriptor_sets g' s2 = Some b' \<and>
           (\<forall>j < unat k. binding_value ty b' (unat bnd + j) = binding_value ty a (unat bnd + j))"
proof (cases "ty = Sampler_with_resource_view")
  case True
  have la': "2 * (unat bnd + 0 + unat k) \<le> length (descriptors a)"
    and lb': "2 * (unat bnd + 0 + unat k) \<le> length (descriptors b)"
    and lw': "2 * (unat bnd + 0 + unat k) \<le> 2 ^ 32"
    using la lb lw True by (simp_all add: slots_def)
  from copy_pairs_same_binding [OF src dst la' lb' lw']
  obtain g' b' where r: "copy_pairs s1 s2 bnd bnd 0 (unat k) g = Inr g'"
    "descriptor_sets g' s2 = Some b'"
    "\<forall>j < length (descriptors b). descriptors b' ! j =
        (if 2 * (unat bnd + 0) \<le> j \<and> j < 2 * (unat bnd + 0 + unat k)
         then descriptors a ! j else descriptors b ! j)"
    by blast
  have u: "update_descriptor_sets []
             [\<lparr>c_src_set = s1, c_src_binding = bnd, c_src_array_offset = src_offset,
               c_dst_set = s2, c_dst_binding = bnd, c_dst_array_offset = dst_offset,
               c_count = k, c_type = ty\<rparr>] g = Inr g'"
    using r(1) True by (simp add: update_descriptor_sets_def copy_descriptor_def)
  have v: "binding_value ty b' (unat bnd + j) = binding_value ty a (unat bnd + j)"
    if "j < unat k" for j
  proof -
    have "2 * (unat bnd + j) < length (descriptors b)"
      and "2 * (unat bnd + j) + 1 < length (descriptors b)"
      using that lb' by simp_all
    then show ?thesis
      using r(3) that True by (simp add: binding_value_def)
  qed
  show ?thesis
    using u r(2) v by (intro exI [of _ g'] exI [of _ b']) simp
next
  case False
  have la': "unat bnd + 0 + unat k \<le> length (descriptors a)"
    and lb': "unat bnd + 0 + unat k \<le> length (descriptors b)"
    and lw': "unat bnd + 0 + unat k \<le> 2 ^ 32"
    using la lb lw False by (simp_all add: slots_def)
  from copy_single_same_binding [OF src dst la' lb' lw']
  obtain g' b' where r: "copy_single s1 s2 bnd bnd 0 (unat k) g = Inr g'"
    "descriptor_sets g' s2 = Some b'"
    "\<forall>j < length (descriptors b). descriptors b' ! j =
        (if unat bnd + 0 \<le> j \<and> j < unat bnd + 0 + unat k
         then descriptors a ! j else descriptors b ! j)"
    by blast
  have u: "update_descriptor_sets []
             [\<lparr>c_src_set = s1, c_src_binding = bnd, c_src_array_offset = src_offset,
               c_dst_set = s2, c_dst_binding = bnd, c_dst_array_offset = dst_offset,
               c_count = k, c_type = ty\<rparr>] g = Inr g'"
    using r(1) False ty
    by (cases ty) (simp_all add: update_descriptor_sets_def copy_descriptor_def)
  have v: "binding_value ty b' (unat bnd + j) = binding_value ty a (unat bnd + j)"
    if "j < unat k" for j
  proof -
    have "unat bnd + j < length (descriptors b)"
      using that lb' by simp
    then show ?thesis
      using r(3) that False by (simp add: binding_value_def)
  qed
  show ?thesis
    using u r(2) v by (intro exI [of _ g'] exI [of _ b']) simp
qed

theorem copy_descriptors_same_binding_witness:
  "descriptor_sets gl_device1 0x9100 = Some filled_set \<and>
   descriptor_sets gl_device1 0x9200 = Some blank_set \<and>
   (\<exists>g' b'.
      update_descriptor_sets []
        [\<lparr>c_src_set = 0x9100, c_src_binding = 1, c_src_array_offset = 0,
          c_dst_set = 0x9200, c_dst_binding = 1, c_dst_array_offset = 0,
          c_count = 2, c_type = Sampler_with_resource_view\<rparr>] gl_device1 = Inr g' \<and>
      descriptor_sets g' 0x9200 = Some b' \<and>
      binding_value Sampler_with_resource_view b' 1 = [0xA1, 0xB1] \<and>
      binding_value Sampler_with_resource_view b' 2 = [0xA2, 0xB2])"
proof -
  have src: "descriptor_sets gl_device1 0x9100 = Some filled_set"
    and dst: "descriptor_sets gl_device1 0x9200 = Some blank_set"
    by (simp_all add: gl_device1_def)
  have ty: "Sampler_with_resource_view \<noteq> Descriptor_other" by simp
  have la: "slots Sampler_with_resource_view * (unat (1 :: 32 word) + unat (2 :: 32 word))
              \<le> length (descriptors filled_set)"
    and lb: "slots Sampler_with_resource_view * (unat (1 :: 32 word) + unat (2 :: 32 word))
              \<le> length (descriptors blank_set)"
    and lw: "slots Sampler_with_resource_view * (unat (1 :: 32 word) + unat (2 :: 32 word))
              \<le> 2 ^ 32"
    by (simp_all add: slots_def filled_set_def blank_set_def)
  from copy_descriptors_same_binding [OF src dst ty la lb lw, where src_offset = 0 and dst_offset = 0]
  obtain g' b' where r:
    "update_descriptor_sets []
        [\<lparr>c_src_set = 0x9100, c_src_binding = 1, c_src_array_offset = 0,
          c_dst_set = 0x9200, c_dst_binding = 1, c_dst_array_offset = 0,
          c_count = 2, c_type = Sampler_with_resource_view\<rparr>] gl_device1 = Inr g'"
    "descriptor_sets g' 0x9200 = Some b'"
    "\<forall>j < unat (2 :: 32 word).
        binding_value Sampler_with_resource_view b' (unat (1 :: 32 word) + j) =
        binding_value Sampler_with_resource_view filled_set (unat (1 :: 32 word) + j)"
    by blast
  have b1: "binding_value Sampler_with_resource_view b' 1 = [0xA1, 0xB1]"
    using r(3) [rule_format, of 0] by (simp add: binding_value_def filled_set_def)
  have b2: "binding_value Sampler_with_resource_view b' 2 = [0xA2, 0xB2]"
    using r(3) [rule_format, of 1] by (simp add: binding_value_def filled_set_def)
  show ?thesis
    using src dst r(1,2) b1 b2 by blast
qed

end
